theory Spec2Isabelle
  imports Main "HOL-Library.Word"
begin

unbundle bit_operations_syntax

section \<open>The system-call core of lab6/kern/syscall.c\<close>

text \<open>
  A shallow embedding of the handlers of \<^verbatim>\<open>src/lab6/kern/syscall.c\<close> that the
  properties below are about: \<^verbatim>\<open>sys_env_destroy\<close>, \<^verbatim>\<open>sys_map_kernel_page\<close>,
  \<^verbatim>\<open>sys_exofork\<close>, \<^verbatim>\<open>sys_env_set_status\<close>, \<^verbatim>\<open>sys_env_set_pgfault_upcall\<close>,
  \<^verbatim>\<open>sys_page_alloc\<close>, \<^verbatim>\<open>sys_page_map\<close>, \<^verbatim>\<open>sys_page_unmap\<close>,
  \<^verbatim>\<open>sys_ipc_try_send\<close> and \<^verbatim>\<open>sys_ipc_recv\<close>, and of the dispatcher
  \<^verbatim>\<open>syscall\<close> for them.

  The kernel's global variables (\<^verbatim>\<open>envs\<close>, \<^verbatim>\<open>curenv\<close>, the page allocator's data)
  are the fields of one record \<open>kstate\<close>; a handler takes the state at syscall entry and
  returns what happened to the call together with the state it leaves. A pointer
  \<^verbatim>\<open>struct Env *\<close> is the index of the slot in \<^verbatim>\<open>envs\<close>, so two pointers to the same
  environment are the same index and every store is seen through both.
\<close>

subsection \<open>Machine types and constants\<close>

type_synonym u32 = "32 word"
type_synonym envid_t = "32 word"  \<comment> \<open>\<^verbatim>\<open>int32_t\<close>, read as signed by \<open>sint\<close>\<close>

text \<open>
  Modelled from the spec: the constants of \<^verbatim>\<open>inc/mmu.h\<close> and \<^verbatim>\<open>inc/memlayout.h\<close>, which
  are not among the sources. The specification fixes their roles: a user address is
  below \<^verbatim>\<open>UTOP\<close> and a multiple of \<^verbatim>\<open>PGSIZE\<close>, and the bits a permission may have are
  USER, PRESENT, WRITE and AVAIL, the \<^verbatim>\<open>PTE_SYSCALL\<close> mask. The numbers are those of the
  JOS headers. The theorems below hold for the handlers whatever the numbers are; the
  runs on the small machine compute with them.
\<close>

definition PGSIZE :: u32 where "PGSIZE = 4096"
definition UTOP :: u32 where "UTOP = 0xeec00000"
definition KERNBASE :: u32 where "KERNBASE = 0xf0000000"

definition PTE_P :: u32 where "PTE_P = 0x001"
definition PTE_W :: u32 where "PTE_W = 0x002"
definition PTE_U :: u32 where "PTE_U = 0x004"
definition PTE_AVAIL :: u32 where "PTE_AVAIL = 0xe00"
definition PTE_SYSCALL :: u32 where "PTE_SYSCALL = (PTE_AVAIL OR PTE_P OR PTE_W OR PTE_U)"

text \<open>
  Modelled from the spec: the error codes of \<^verbatim>\<open>inc/error.h\<close>, which is not among the
  sources. An error \<^verbatim>\<open>E_*\<close> is a small positive number and is reported to the caller
  as the negative number \<^verbatim>\<open>-E_*\<close>; of the numbers (those of the JOS header) the
  theorems use only that they are positive.
\<close>

definition E_BAD_ENV :: int where "E_BAD_ENV = 2"
definition E_INVAL :: int where "E_INVAL = 3"
definition E_NO_MEM :: int where "E_NO_MEM = 4"
definition E_NO_FREE_ENV :: int where "E_NO_FREE_ENV = 5"
definition E_IPC_NOT_RECV :: int where "E_IPC_NOT_RECV = 7"

text \<open>Modelled from the spec: \<^verbatim>\<open>ENVGENSHIFT\<close> of \<^verbatim>\<open>inc/env.h\<close>, the position of the
  generation number in an environment identifier, above the slot index.\<close>

definition ENVGENSHIFT :: nat where "ENVGENSHIFT = 12"

text \<open>Modelled from the spec: the macros \<^verbatim>\<open>PDX\<close> and \<^verbatim>\<open>PGNUM\<close> of \<^verbatim>\<open>inc/mmu.h\<close>, the
  page-directory index and the page number of an address.\<close>

definition PDX :: "u32 \<Rightarrow> u32" where "PDX va = drop_bit 22 va"
definition PGNUM :: "u32 \<Rightarrow> u32" where "PGNUM va = drop_bit 12 va"

subsection \<open>Environments\<close>

datatype env_status_t = ENV_FREE | ENV_DYING | ENV_RUNNABLE | ENV_RUNNING | ENV_NOT_RUNNABLE

record PushRegs =
  reg_edi :: u32
  reg_esi :: u32
  reg_ebp :: u32
  reg_oesp :: u32
  reg_ebx :: u32
  reg_edx :: u32
  reg_ecx :: u32
  reg_eax :: u32

record Trapframe =
  tf_regs :: PushRegs
  tf_es :: "16 word"
  tf_ds :: "16 word"
  tf_trapno :: u32
  tf_err :: u32
  tf_eip :: u32
  tf_cs :: "16 word"
  tf_eflags :: u32
  tf_esp :: u32
  tf_ss :: "16 word"

text \<open>
  \<^verbatim>\<open>struct Env\<close> with the fields the handlers read and write. \<open>env_pgdir\<close> is the
  physical page that holds the page directory; \<open>env_ipc_pending_page\<close> is a
  \<^verbatim>\<open>struct Page *\<close>, \<open>None\<close> for \<^verbatim>\<open>NULL\<close>.
\<close>

record Env =
  env_tf :: Trapframe
  env_id :: envid_t
  env_parent_id :: envid_t
  env_status :: env_status_t
  env_pgdir :: nat
  env_pgfault_upcall :: u32
  env_break :: u32
  env_ipc_recving :: bool
  env_ipc_dstva :: u32
  env_ipc_value :: u32
  env_ipc_from :: envid_t
  env_ipc_perm :: u32
  env_ipc_pending_envid :: envid_t
  env_ipc_pending_value :: u32
  env_ipc_pending_page :: "nat option"
  env_ipc_pending_perm :: u32

subsection \<open>Kernel state\<close>

text \<open>
  \<open>envs\<close> is the environment table with \<open>NENV\<close> slots and \<open>curenv\<close> the slot of the
  running environment. \<open>env_free_list\<close> is the list of unallocated slots.
  The page allocator owns \<open>npages\<close> physical pages, numbered from 0: \<open>page_free_list\<close>
  holds the free ones and \<open>pp_ref\<close> the reference counts. A page directory is named by
  the page that holds it; \<open>pgtab d x\<close> is the page-table page of directory \<open>d\<close> for the
  directory index \<open>x\<close>, and \<open>ptes d n\<close> the entry for the virtual page number \<open>n\<close>:
  the mapped physical page and the entry's low flag bits.
\<close>

record kstate =
  envs :: "nat \<Rightarrow> Env"
  NENV :: nat
  curenv :: nat
  env_free_list :: "nat list"
  npages :: nat
  page_free_list :: "nat list"
  pp_ref :: "nat \<Rightarrow> nat"
  pgtab :: "nat \<Rightarrow> u32 \<Rightarrow> nat option"
  ptes :: "nat \<Rightarrow> u32 \<Rightarrow> (nat \<times> u32) option"

text \<open>What a handler does with the call: it returns a value to the dispatcher, it gives
  up the CPU through \<^verbatim>\<open>sched_yield()\<close> (which runs another environment and does not
  come back to the statement after it), or the kernel stops in \<^verbatim>\<open>panic\<close>.\<close>

datatype outcome = Ret int | Yields | Panic

text \<open>A store through a \<^verbatim>\<open>struct Env *\<close>: \<^verbatim>\<open>e->field = v\<close>.\<close>

definition env_upd :: "nat \<Rightarrow> (Env \<Rightarrow> Env) \<Rightarrow> kstate \<Rightarrow> kstate" where
  "env_upd e f s = s\<lparr>envs := (envs s)(e := f (envs s e))\<rparr>"

subsection \<open>The page allocator and the page tables (kern/pmap.c)\<close>

text \<open>
  The functions of this subsection live in \<^verbatim>\<open>kern/pmap.c\<close> and \<^verbatim>\<open>kern/pmap.h\<close>, which
  are not among the sources. The specification names them as the interface the handlers
  consume: pages are shared by reference count and reclaimable at count zero,
  \<^verbatim>\<open>page_insert\<close> replaces a mapping that is already there, and (the comments of
  \<^verbatim>\<open>sys_page_alloc\<close> and \<^verbatim>\<open>sys_page_map\<close>) it fails with \<^verbatim>\<open>-E_NO_MEM\<close> when there
  is no memory for a page table it needs. The contents of pages are not modelled.
\<close>

text \<open>Modelled from the spec: \<^verbatim>\<open>page_alloc\<close> of \<^verbatim>\<open>kern/pmap.c\<close>. It takes the first
  page of the free list; \<open>None\<close> is \<^verbatim>\<open>NULL\<close>, no page left. The reference count is the
  caller's business.\<close>

definition page_alloc :: "kstate \<Rightarrow> (nat \<times> kstate) option" where
  "page_alloc s =
     (case page_free_list s of
        [] \<Rightarrow> None
      | pp # rest \<Rightarrow> Some (pp, s\<lparr>page_free_list := rest\<rparr>))"

text \<open>Modelled from the spec: \<^verbatim>\<open>page_free\<close> of \<^verbatim>\<open>kern/pmap.c\<close>. It puts the page
  back at the head of the free list.\<close>

definition page_free :: "kstate \<Rightarrow> nat \<Rightarrow> kstate" where
  "page_free s pp = s\<lparr>page_free_list := pp # page_free_list s\<rparr>"

text \<open>Modelled from the spec: \<^verbatim>\<open>page_decref\<close> of \<^verbatim>\<open>kern/pmap.c\<close>. It drops one
  reference and frees the page when none is left.\<close>

definition page_decref :: "kstate \<Rightarrow> nat \<Rightarrow> kstate" where
  "page_decref s pp =
     (let s1 = s\<lparr>pp_ref := (pp_ref s)(pp := pp_ref s pp - 1)\<rparr>
      in if pp_ref s1 pp = 0 then page_free s1 pp else s1)"

text \<open>Modelled from the spec: \<^verbatim>\<open>pgdir_walk(pgdir, va, create)\<close> of \<^verbatim>\<open>kern/pmap.c\<close>.
  The result says whether there is an entry slot for \<open>va\<close> afterwards; with \<open>create\<close>
  a missing page table is allocated, and the walk fails when no page is left for it.\<close>

definition pgdir_walk :: "kstate \<Rightarrow> nat \<Rightarrow> u32 \<Rightarrow> bool \<Rightarrow> bool \<times> kstate" where
  "pgdir_walk s pgdir va create =
     (case pgtab s pgdir (PDX va) of
        Some pt \<Rightarrow> (True, s)
      | None \<Rightarrow>
          if \<not> create then (False, s)
          else (case page_alloc s of
                  None \<Rightarrow> (False, s)
                | Some (pt, s1) \<Rightarrow>
                    (True, s1\<lparr>pp_ref := (pp_ref s1)(pt := pp_ref s1 pt + 1),
                              pgtab := (pgtab s1)(pgdir := (pgtab s1 pgdir)(PDX va \<mapsto> pt))\<rparr>)))"

text \<open>Modelled from the spec: \<^verbatim>\<open>page_lookup(pgdir, va, &pte)\<close> of \<^verbatim>\<open>kern/pmap.c\<close>.
  The result is the page mapped at \<open>va\<close> with the flag bits of its entry, or \<open>None\<close>
  for \<^verbatim>\<open>NULL\<close>.\<close>

definition page_lookup :: "kstate \<Rightarrow> nat \<Rightarrow> u32 \<Rightarrow> (nat \<times> u32) option" where
  "page_lookup s pgdir va =
     (case pgtab s pgdir (PDX va) of
        None \<Rightarrow> None
      | Some pt \<Rightarrow> ptes s pgdir (PGNUM va))"

text \<open>Modelled from the spec: \<^verbatim>\<open>page_remove\<close> of \<^verbatim>\<open>kern/pmap.c\<close>. It unmaps the
  page at \<open>va\<close>, if there is one, and drops its reference.\<close>

definition page_remove :: "kstate \<Rightarrow> nat \<Rightarrow> u32 \<Rightarrow> kstate" where
  "page_remove s pgdir va =
     (case page_lookup s pgdir va of
        None \<Rightarrow> s
      | Some (pp, fl) \<Rightarrow>
          (let s1 = page_decref s pp
           in s1\<lparr>ptes := (ptes s1)(pgdir := (ptes s1 pgdir)(PGNUM va := None))\<rparr>))"

text \<open>Modelled from the spec: \<^verbatim>\<open>page_insert(pgdir, pp, va, perm)\<close> of \<^verbatim>\<open>kern/pmap.c\<close>.
  It maps \<open>pp\<close> at \<open>va\<close> with \<open>perm\<close> and the present bit, replacing a mapping that is
  there. When the page table cannot be allocated it returns \<^verbatim>\<open>-E_NO_MEM\<close> and has
  changed nothing; otherwise it returns 0.\<close>

definition page_insert :: "kstate \<Rightarrow> nat \<Rightarrow> nat \<Rightarrow> u32 \<Rightarrow> u32 \<Rightarrow> int \<times> kstate" where
  "page_insert s pgdir pp va perm =
     (case pgdir_walk s pgdir va True of
        (False, s1) \<Rightarrow> (- E_NO_MEM, s)
      | (True, s1) \<Rightarrow>
          (let s2 = s1\<lparr>pp_ref := (pp_ref s1)(pp := pp_ref s1 pp + 1)\<rparr>;
               s3 = (if page_lookup s2 pgdir va \<noteq> None then page_remove s2 pgdir va else s2)
           in (0, s3\<lparr>ptes := (ptes s3)(pgdir := (ptes s3 pgdir)(PGNUM va \<mapsto> (pp, perm OR PTE_P)))\<rparr>)))"

text \<open>Modelled from the spec: the macro \<^verbatim>\<open>PADDR\<close> of \<^verbatim>\<open>kern/pmap.h\<close>, the physical
  address of a kernel virtual address.\<close>

definition PADDR :: "u32 \<Rightarrow> u32" where
  "PADDR kva = kva - KERNBASE"

text \<open>Modelled from the spec: \<^verbatim>\<open>pa2page\<close> of \<^verbatim>\<open>kern/pmap.h\<close>, as
  \<^verbatim>\<open>sys_map_kernel_page\<close> uses it. The result is the page of a physical address,
  \<open>None\<close> (\<^verbatim>\<open>NULL\<close>) when the address does not correspond to a managed page.\<close>

definition pa2page :: "kstate \<Rightarrow> u32 \<Rightarrow> nat option" where
  "pa2page s pa = (if unat (PGNUM pa) < npages s then Some (unat (PGNUM pa)) else None)"

subsection \<open>The environment table (kern/env.c)\<close>

text \<open>
  The functions of this subsection live in \<^verbatim>\<open>kern/env.c\<close> and \<^verbatim>\<open>inc/env.h\<close>, which
  are not among the sources.
\<close>

text \<open>Modelled from the spec: the macro \<^verbatim>\<open>ENVX\<close> of \<^verbatim>\<open>inc/env.h\<close>, the slot index in
  the low bits of an identifier. The table size \<open>NENV\<close> is a power of two in the kernel,
  where the macro masks with \<^verbatim>\<open>NENV - 1\<close>.\<close>

definition ENVX :: "kstate \<Rightarrow> envid_t \<Rightarrow> nat" where
  "ENVX s envid = unat envid mod NENV s"

text \<open>
  Modelled from the spec: \<^verbatim>\<open>envid2env(envid, &e, checkperm)\<close> of \<^verbatim>\<open>kern/env.c\<close>.
  The identifier 0 is the current environment; otherwise the slot of the identifier must
  be allocated and carry that identifier, and with \<open>checkperm\<close> the target must be the
  caller or have the caller as its parent. The result is the error code (\<open>Inl\<close>,
  always \<^verbatim>\<open>-E_BAD_ENV\<close>) or the slot (\<open>Inr\<close>).
\<close>

definition envid2env :: "kstate \<Rightarrow> envid_t \<Rightarrow> bool \<Rightarrow> int + nat" where
  "envid2env s envid checkperm =
     (if envid = 0 then Inr (curenv s)
      else (let e = ENVX s envid
            in if env_status (envs s e) = ENV_FREE \<or> env_id (envs s e) \<noteq> envid
               then Inl (- E_BAD_ENV)
               else if checkperm \<and> e \<noteq> curenv s
                       \<and> env_parent_id (envs s e) \<noteq> env_id (envs s (curenv s))
               then Inl (- E_BAD_ENV)
               else Inr e))"

text \<open>Modelled from the spec: the identifier \<^verbatim>\<open>env_alloc\<close> gives a slot, the next
  generation above the slot's last identifier with the slot index in the low bits.\<close>

definition mk_envid :: "kstate \<Rightarrow> nat \<Rightarrow> envid_t" where
  "mk_envid s e =
     (let generation = (env_id (envs s e) + push_bit ENVGENSHIFT 1) AND NOT (of_nat (NENV s) - 1);
          generation' = (if sint generation \<le> 0 then push_bit ENVGENSHIFT 1 else generation)
      in generation' OR of_nat e)"

text \<open>Modelled from the spec: the register frame \<^verbatim>\<open>env_alloc\<close> gives a new
  environment: cleared registers, user segments, interrupts enabled, the user stack.\<close>

definition clear_tf :: Trapframe where
  "clear_tf =
     \<lparr>tf_regs = \<lparr>reg_edi = 0, reg_esi = 0, reg_ebp = 0, reg_oesp = 0,
                 reg_ebx = 0, reg_edx = 0, reg_ecx = 0, reg_eax = 0\<rparr>,
      tf_es = 0x23, tf_ds = 0x23, tf_trapno = 0, tf_err = 0, tf_eip = 0,
      tf_cs = 0x1b, tf_eflags = 0x200, tf_esp = 0xeebfe000, tf_ss = 0x23\<rparr>"

text \<open>
  Modelled from the spec: \<^verbatim>\<open>env_alloc(&e, parent_id)\<close> of \<^verbatim>\<open>kern/env.c\<close>. It takes the
  first free slot (\<^verbatim>\<open>-E_NO_FREE_ENV\<close> when there is none) and gives it a fresh page
  directory (\<^verbatim>\<open>-E_NO_MEM\<close> when no page is left), a new identifier, the given parent,
  status RUNNABLE, a cleared register frame, no upcall and no pending receive. The
  result is the error code (\<open>Inl\<close>) or the slot with the new state (\<open>Inr\<close>).
\<close>

definition env_alloc :: "kstate \<Rightarrow> envid_t \<Rightarrow> int + (nat \<times> kstate)" where
  "env_alloc s parent_id =
     (case env_free_list s of
        [] \<Rightarrow> Inl (- E_NO_FREE_ENV)
      | e # rest \<Rightarrow>
          (case page_alloc s of
             None \<Rightarrow> Inl (- E_NO_MEM)
           | Some (pd, s1) \<Rightarrow>
               (let s2 = s1\<lparr>pp_ref := (pp_ref s1)(pd := pp_ref s1 pd + 1)\<rparr>;
                    s3 = env_upd e (\<lambda>x. x\<lparr>env_pgdir := pd,
                                          env_id := mk_envid s2 e,
                                          env_parent_id := parent_id,
                                          env_status := ENV_RUNNABLE,
                                          env_tf := clear_tf,
                                          env_pgfault_upcall := 0,
                                          env_ipc_recving := False\<rparr>) s2
                in Inr (e, s3\<lparr>env_free_list := rest\<rparr>))))"



subsection \<open>The handlers\<close>

text \<open>\<^verbatim>\<open>sys_map_kernel_page(kpage, va)\<close>, lines 72-81.\<close>

definition sys_map_kernel_page :: "kstate \<Rightarrow> u32 \<Rightarrow> u32 \<Rightarrow> outcome \<times> kstate" where
  "sys_map_kernel_page s kpage va =
     (case pa2page s (PADDR kpage) of
        None \<Rightarrow> (Ret E_INVAL, s)
      | Some p \<Rightarrow>
          (case page_insert s (env_pgdir (envs s (curenv s))) p va (PTE_U OR PTE_W) of
             (r, s1) \<Rightarrow> (Ret r, s1)))"

text \<open>\<^verbatim>\<open>sys_exofork()\<close>, lines 94-117. The four stores through \<^verbatim>\<open>newenv\<close> are made in
  the source's order, each reading the state the one before it left.\<close>

definition sys_exofork :: "kstate \<Rightarrow> outcome \<times> kstate" where
  "sys_exofork s =
     (case env_alloc s (env_id (envs s (curenv s))) of
        Inl r \<Rightarrow> (Ret r, s)
      | Inr (newenv, s1) \<Rightarrow>
          (let s2 = env_upd newenv (\<lambda>x. x\<lparr>env_status := ENV_NOT_RUNNABLE\<rparr>) s1;
               s3 = env_upd newenv (\<lambda>x. x\<lparr>env_tf := env_tf (envs s2 (curenv s2))\<rparr>) s2;
               s4 = env_upd newenv (\<lambda>x. x\<lparr>env_break := env_break (envs s3 (curenv s3))\<rparr>) s3;
               s5 = env_upd newenv
                      (\<lambda>x. x\<lparr>env_tf := (env_tf x)\<lparr>tf_regs := (tf_regs (env_tf x))\<lparr>reg_eax := 0\<rparr>\<rparr>\<rparr>) s4
           in (Ret (sint (env_id (envs s5 newenv))), s5)))"

text \<open>\<^verbatim>\<open>sys_env_set_pgfault_upcall(envid, func)\<close>, lines 190-206.\<close>

definition sys_env_set_pgfault_upcall :: "kstate \<Rightarrow> envid_t \<Rightarrow> u32 \<Rightarrow> outcome \<times> kstate" where
  "sys_env_set_pgfault_upcall s envid func =
     (case envid2env s envid True of
        Inl r \<Rightarrow> (Ret r, s)
      | Inr env \<Rightarrow>
          if func = 0 then (Panic, s)
          else (Ret 0, env_upd env (\<lambda>x. x\<lparr>env_pgfault_upcall := func\<rparr>) s))"

text \<open>The permission check shared by the page handlers:
  \<^verbatim>\<open>!(perm & PTE_U) || !(perm & PTE_P) || (perm & ~PTE_SYSCALL)\<close>.\<close>

definition bad_perm :: "u32 \<Rightarrow> bool" where
  "bad_perm perm \<longleftrightarrow> perm AND PTE_U = 0 \<or> perm AND PTE_P = 0 \<or> perm AND NOT PTE_SYSCALL \<noteq> 0"

text \<open>\<^verbatim>\<open>sys_page_alloc(envid, va, perm)\<close>, lines 257-290.\<close>

definition sys_page_alloc :: "kstate \<Rightarrow> envid_t \<Rightarrow> u32 \<Rightarrow> u32 \<Rightarrow> outcome \<times> kstate" where
  "sys_page_alloc s envid va perm =
     (case envid2env s envid True of
        Inl r \<Rightarrow> (Ret r, s)
      | Inr env \<Rightarrow>
          if UTOP \<le> va \<or> va mod PGSIZE \<noteq> 0 then (Ret (- E_INVAL), s)
          else if bad_perm perm then (Ret (- E_INVAL), s)
          else (case page_alloc s of
                  None \<Rightarrow> (Ret (- E_NO_MEM), s)
                | Some (page, s1) \<Rightarrow>
                    (case page_insert s1 (env_pgdir (envs s1 env)) page va perm of
                       (r, s2) \<Rightarrow>
                         if r < 0 then (Ret r, page_free s2 page)
                         else (Ret 0, s2))))"

text \<open>\<^verbatim>\<open>sys_page_map(srcenvid, srcva, dstenvid, dstva, perm)\<close>, lines 309-351.\<close>

definition sys_page_map ::
  "kstate \<Rightarrow> envid_t \<Rightarrow> u32 \<Rightarrow> envid_t \<Rightarrow> u32 \<Rightarrow> u32 \<Rightarrow> outcome \<times> kstate" where
  "sys_page_map s srcenvid srcva dstenvid dstva perm =
     (case envid2env s srcenvid True of
        Inl r \<Rightarrow> (Ret r, s)
      | Inr srcenv \<Rightarrow>
          (case envid2env s dstenvid True of
             Inl r \<Rightarrow> (Ret r, s)
           | Inr dstenv \<Rightarrow>
               if UTOP \<le> srcva \<or> srcva mod PGSIZE \<noteq> 0 then (Ret (- E_INVAL), s)
               else if UTOP \<le> dstva \<or> dstva mod PGSIZE \<noteq> 0 then (Ret (- E_INVAL), s)
               else (case page_lookup s (env_pgdir (envs s srcenv)) srcva of
                       None \<Rightarrow> (Ret (- E_INVAL), s)
                     | Some (page, srcpte) \<Rightarrow>
                         if bad_perm perm then (Ret (- E_INVAL), s)
                         else if perm AND PTE_W \<noteq> 0 \<and> srcpte AND PTE_W = 0
                         then (Ret (- E_INVAL), s)
                         else (case page_insert s (env_pgdir (envs s dstenv)) page dstva perm of
                                 (r, s1) \<Rightarrow> if r < 0 then (Ret r, s1) else (Ret 0, s1)))))"

text \<open>
  \<^verbatim>\<open>sys_ipc_try_send(envid, value, srcva, perm)\<close>, lines 427-482.
  \<open>ipc_send_reset\<close> is the statement of lines 439-442, \<open>ipc_send_commit\<close> the one of
  lines 468-479, which every path that has not returned runs last. After
  \<^verbatim>\<open>sched_yield()\<close> the sender does not run on: the outcome is \<open>Yields\<close>.
\<close>

definition ipc_send_reset :: "kstate \<Rightarrow> nat \<Rightarrow> kstate" where
  "ipc_send_reset s env =
     (if env_ipc_recving (envs s env)
      then env_upd env (\<lambda>x. x\<lparr>env_ipc_perm := 0\<rparr>) s
      else env_upd (curenv s) (\<lambda>x. x\<lparr>env_ipc_pending_page := None\<rparr>) s)"

definition ipc_send_commit :: "kstate \<Rightarrow> nat \<Rightarrow> envid_t \<Rightarrow> u32 \<Rightarrow> outcome \<times> kstate" where
  "ipc_send_commit s env envid val =
     (if env_ipc_recving (envs s env)
      then (let s1 = env_upd env (\<lambda>x. x\<lparr>env_ipc_recving := False\<rparr>) s;
                s2 = env_upd env (\<lambda>x. x\<lparr>env_ipc_from := env_id (envs s1 (curenv s1))\<rparr>) s1;
                s3 = env_upd env (\<lambda>x. x\<lparr>env_ipc_value := val\<rparr>) s2;
                s4 = env_upd env (\<lambda>x. x\<lparr>env_status := ENV_RUNNABLE\<rparr>) s3;
                s5 = env_upd env
                       (\<lambda>x. x\<lparr>env_tf := (env_tf x)\<lparr>tf_regs := (tf_regs (env_tf x))\<lparr>reg_eax := 0\<rparr>\<rparr>\<rparr>) s4
            in (Ret 0, s5))
      else (let s1 = env_upd (curenv s) (\<lambda>x. x\<lparr>env_ipc_pending_envid := envid\<rparr>) s;
                s2 = env_upd (curenv s1) (\<lambda>x. x\<lparr>env_ipc_pending_value := val\<rparr>) s1;
                s3 = env_upd (curenv s2) (\<lambda>x. x\<lparr>env_status := ENV_NOT_RUNNABLE\<rparr>) s2
            in (Yields, s3)))"

definition sys_ipc_try_send ::
  "kstate \<Rightarrow> envid_t \<Rightarrow> u32 \<Rightarrow> u32 \<Rightarrow> u32 \<Rightarrow> outcome \<times> kstate" where
  "sys_ipc_try_send s0 envid val srcva perm =
     (case envid2env s0 envid False of
        Inl r \<Rightarrow> (Ret r, s0)
      | Inr env \<Rightarrow>
          (let s = ipc_send_reset s0 env
           in if srcva < UTOP
                 \<and> (env_ipc_dstva (envs s env) < UTOP \<or> \<not> env_ipc_recving (envs s env))
              then
                if srcva mod PGSIZE \<noteq> 0 then (Ret (- E_INVAL), s)
                else if bad_perm perm then (Ret (- E_INVAL), s)
                else (case page_lookup s (env_pgdir (envs s (curenv s))) srcva of
                        None \<Rightarrow> (Ret (- E_INVAL), s)
                      | Some (page, srcpte) \<Rightarrow>
                          if perm AND PTE_W \<noteq> 0 \<and> srcpte AND PTE_W = 0
                          then (Ret (- E_INVAL), s)
                          else if env_ipc_recving (envs s env)
                          then (case page_insert s (env_pgdir (envs s env)) page
                                       (env_ipc_dstva (envs s env)) perm of
                                  (r, s1) \<Rightarrow>
                                    if r < 0 then (Ret r, s1)
                                    else ipc_send_commit
                                           (env_upd env (\<lambda>x. x\<lparr>env_ipc_perm := perm\<rparr>) s1)
                                           env envid val)
                          else (let s1 = env_upd (curenv s)
                                           (\<lambda>x. x\<lparr>env_ipc_pending_page := Some page\<rparr>) s;
                                    s2 = env_upd (curenv s1)
                                           (\<lambda>x. x\<lparr>env_ipc_pending_perm := perm\<rparr>) s1
                                in ipc_send_commit s2 env envid val))
              else ipc_send_commit s env envid val))"

text \<open>
  \<^verbatim>\<open>sys_ipc_recv(dstva)\<close>, lines 500-542. \<open>ipc_recv_set_dstva\<close> is the store of
  line 512, made only under \<^verbatim>\<open>dstva < UTOP\<close>. \<open>ipc_recv_take\<close> is the body of the
  \<^verbatim>\<open>if\<close> inside the loop (lines 518-532) for the slot \<open>i\<close>; every path through it
  returns, the successful ones through \<open>ipc_recv_deliver\<close> (lines 527-532).
  \<open>ipc_parked_for\<close> is the loop's test (line 517) and \<open>ipc_recv_scan\<close> the \<^verbatim>\<open>for\<close>
  loop over the slots still to visit: \<open>None\<close> when it ends without a match.
\<close>

definition ipc_recv_set_dstva :: "kstate \<Rightarrow> u32 \<Rightarrow> kstate" where
  "ipc_recv_set_dstva s dstva =
     (if dstva < UTOP then env_upd (curenv s) (\<lambda>x. x\<lparr>env_ipc_dstva := dstva\<rparr>) s else s)"

definition ipc_recv_deliver :: "kstate \<Rightarrow> nat \<Rightarrow> outcome \<times> kstate" where
  "ipc_recv_deliver s i =
     (let s1 = env_upd (curenv s)
                 (\<lambda>x. x\<lparr>env_ipc_value := env_ipc_pending_value (envs s i)\<rparr>) s;
          s2 = env_upd (curenv s1) (\<lambda>x. x\<lparr>env_ipc_from := env_id (envs s1 i)\<rparr>) s1;
          s3 = env_upd i (\<lambda>x. x\<lparr>env_ipc_pending_envid := 0\<rparr>) s2;
          s4 = env_upd i (\<lambda>x. x\<lparr>env_status := ENV_RUNNABLE\<rparr>) s3;
          s5 = env_upd i
                 (\<lambda>x. x\<lparr>env_tf := (env_tf x)\<lparr>tf_regs := (tf_regs (env_tf x))\<lparr>reg_eax := 0\<rparr>\<rparr>\<rparr>) s4
      in (Ret 0, s5))"

definition ipc_recv_take :: "kstate \<Rightarrow> u32 \<Rightarrow> nat \<Rightarrow> outcome \<times> kstate" where
  "ipc_recv_take s0 dstva i =
     (let s = env_upd (curenv s0) (\<lambda>x. x\<lparr>env_ipc_perm := 0\<rparr>) s0
      in case env_ipc_pending_page (envs s i) of
           Some page \<Rightarrow>
             if dstva < UTOP
             then (case page_insert s (env_pgdir (envs s (curenv s))) page dstva
                          (env_ipc_pending_perm (envs s i)) of
                     (r, s1) \<Rightarrow>
                       if r < 0 then (Ret r, s1)
                       else ipc_recv_deliver
                              (env_upd (curenv s1)
                                 (\<lambda>x. x\<lparr>env_ipc_perm := env_ipc_pending_perm (envs s1 i)\<rparr>) s1)
                              i)
             else ipc_recv_deliver s i
         | None \<Rightarrow> ipc_recv_deliver s i)"

definition ipc_parked_for :: "kstate \<Rightarrow> nat \<Rightarrow> bool" where
  "ipc_parked_for s i \<longleftrightarrow>
     env_status (envs s i) \<noteq> ENV_FREE
     \<and> env_ipc_pending_envid (envs s i) = env_id (envs s (curenv s))"

fun ipc_recv_scan :: "kstate \<Rightarrow> u32 \<Rightarrow> nat list \<Rightarrow> (outcome \<times> kstate) option" where
  "ipc_recv_scan s dstva [] = None"
| "ipc_recv_scan s dstva (i # rest) =
     (if ipc_parked_for s i then Some (ipc_recv_take s dstva i)
      else ipc_recv_scan s dstva rest)"

definition sys_ipc_recv :: "kstate \<Rightarrow> u32 \<Rightarrow> outcome \<times> kstate" where
  "sys_ipc_recv s0 dstva =
     (if dstva < UTOP \<and> dstva mod PGSIZE \<noteq> 0 then (Ret (- E_INVAL), s0)
      else (let s = ipc_recv_set_dstva s0 dstva
            in case ipc_recv_scan s dstva [0..<NENV s] of
                 Some res \<Rightarrow> res
               | None \<Rightarrow>
                   (let s1 = env_upd (curenv s) (\<lambda>x. x\<lparr>env_ipc_recving := True\<rparr>) s;
                        s2 = env_upd (curenv s1) (\<lambda>x. x\<lparr>env_status := ENV_NOT_RUNNABLE\<rparr>) s1
                    in (Yields, s2))))"




text \<open>Whether the source mapping that \<^verbatim>\<open>sys_page_map\<close> looks up is writable: a page
  is mapped at \<open>srcva\<close> in the directory of \<open>srcenv\<close> and its entry has \<^verbatim>\<open>PTE_W\<close>.\<close>

definition src_writable :: "kstate \<Rightarrow> nat \<Rightarrow> u32 \<Rightarrow> bool" where
  "src_writable s srcenv srcva =
     (case page_lookup s (env_pgdir (envs s srcenv)) srcva of
        None \<Rightarrow> False
      | Some (page, srcpte) \<Rightarrow> srcpte AND PTE_W \<noteq> 0)"

subsection \<open>Runs of the system calls\<close>

text \<open>
  The dispatcher \<^verbatim>\<open>syscall(syscallno, a1, ..., a5)\<close>, lines 586-655, for the handlers
  above: a \<open>call\<close> is a system-call number with the arguments its handler takes.
\<close>

datatype call =
    SYS_env_destroy envid_t
  | SYS_map_kernel_page u32 u32
  | SYS_exofork
  | SYS_env_set_status envid_t env_status_t
  | SYS_env_set_pgfault_upcall envid_t u32
  | SYS_page_alloc envid_t u32 u32
  | SYS_page_map envid_t u32 envid_t u32 u32
  | SYS_page_unmap envid_t u32
  | SYS_ipc_try_send envid_t u32 u32 u32
  | SYS_ipc_recv u32













subsection \<open>A small machine\<close>

text \<open>
  Concrete states on which the handlers are run below. The table has four slots and the
  allocator eight pages. Slot 0 holds the running environment \<open>0x1000\<close>, whose saved
  frame has \<open>eax = 6\<close>; it has a writable page (page 3) mapped at \<open>0x400000\<close> and a
  read-only one (page 4) at \<open>0x401000\<close>. Slot 1 holds its child \<open>0x1001\<close>, which has
  an empty address space. Slots 2 and 3 are free, and so are the pages 5, 6 and 7.
\<close>

definition free_env :: Env where
  "free_env =
     \<lparr>env_tf = clear_tf, env_id = 0, env_parent_id = 0, env_status = ENV_FREE, env_pgdir = 0,
      env_pgfault_upcall = 0, env_break = 0, env_ipc_recving = False, env_ipc_dstva = 0,
      env_ipc_value = 0, env_ipc_from = 0, env_ipc_perm = 0, env_ipc_pending_envid = 0,
      env_ipc_pending_value = 0, env_ipc_pending_page = None, env_ipc_pending_perm = 0\<rparr>"

definition ex_boot :: kstate where
  "ex_boot =
     \<lparr>envs = (\<lambda>i. free_env)
        (0 := free_env\<lparr>env_id := 0x1000, env_status := ENV_RUNNING, env_pgdir := 0,
                       env_break := 0x10000000,
                       env_tf := clear_tf\<lparr>tf_regs := (tf_regs clear_tf)\<lparr>reg_eax := 6, reg_edx := 0x2a\<rparr>,
                                          tf_eip := 0x800020\<rparr>\<rparr>,
         1 := free_env\<lparr>env_id := 0x1001, env_parent_id := 0x1000, env_status := ENV_RUNNABLE,
                       env_pgdir := 1\<rparr>),
      NENV = 4, curenv = 0, env_free_list = [2, 3], npages = 8,
      page_free_list = [5, 6, 7],
      pp_ref = (\<lambda>p. 0)(0 := 1, 1 := 1, 2 := 1, 3 := 1, 4 := 1),
      pgtab = (\<lambda>d x. None)(0 := [1 \<mapsto> 2]),
      ptes = (\<lambda>d n. None)(0 := [0x400 \<mapsto> (3, 7), 0x401 \<mapsto> (4, 5)])\<rparr>"

text \<open>The child is blocked in \<^verbatim>\<open>sys_ipc_recv(0x800000)\<close>; \<open>env_ipc_perm\<close> still holds
  the permission of a page it received before.\<close>

definition ex_receiving :: kstate where
  "ex_receiving =
     env_upd 1 (\<lambda>x. x\<lparr>env_ipc_recving := True, env_ipc_dstva := 0x800000, env_ipc_perm := 7,
                       env_status := ENV_NOT_RUNNABLE,
                       env_tf := clear_tf\<lparr>tf_regs := (tf_regs clear_tf)\<lparr>reg_eax := 13\<rparr>\<rparr>\<rparr>) ex_boot"

text \<open>The parent has sent a page before and was parked for it: the receiver took the
  message and cleared \<open>env_ipc_pending_envid\<close>, and \<open>env_ipc_pending_page\<close> is still
  set.\<close>

definition ex_after_send :: kstate where
  "ex_after_send =
     env_upd 0 (\<lambda>x. x\<lparr>env_ipc_pending_page := Some 3, env_ipc_pending_perm := 7\<rparr>) ex_boot"

text \<open>The child runs; an earlier \<^verbatim>\<open>sys_ipc_recv(0x800000)\<close> of its left
  \<open>env_ipc_dstva = 0x800000\<close>. \<open>ex_stale_blocked\<close> is the state after it has called
  \<^verbatim>\<open>sys_ipc_recv(UTOP)\<close> and the scheduler has picked the parent again.\<close>

definition ex_stale :: kstate where
  "ex_stale =
     (env_upd 1 (\<lambda>x. x\<lparr>env_ipc_dstva := 0x800000, env_status := ENV_RUNNING\<rparr>)
        (env_upd 0 (\<lambda>x. x\<lparr>env_status := ENV_RUNNABLE\<rparr>) ex_boot))\<lparr>curenv := 1\<rparr>"

definition ex_stale_blocked :: kstate where
  "ex_stale_blocked = (snd (sys_ipc_recv ex_stale UTOP))\<lparr>curenv := 0\<rparr>"

text \<open>Slots 1 and 2 both hold children parked in a send to the parent, with the values
  11 and 22.\<close>

definition ex_parked :: kstate where
  "ex_parked =
     (env_upd 2 (\<lambda>x. x\<lparr>env_id := 0x1002, env_parent_id := 0x1000, env_pgdir := 5,
                        env_status := ENV_NOT_RUNNABLE, env_ipc_pending_envid := 0x1000,
                        env_ipc_pending_value := 22\<rparr>)
        (env_upd 1 (\<lambda>x. x\<lparr>env_status := ENV_NOT_RUNNABLE, env_ipc_pending_envid := 0x1000,
                           env_ipc_pending_value := 11,
                           env_tf := clear_tf\<lparr>tf_regs := (tf_regs clear_tf)\<lparr>reg_eax := 12\<rparr>\<rparr>\<rparr>) ex_boot))
     \<lparr>env_free_list := [3], page_free_list := [6, 7]\<rparr>"

text \<open>Only page 5 is free.\<close>

definition ex_low :: kstate where
  "ex_low = ex_boot\<lparr>page_free_list := [5]\<rparr>"










section \<open>Properties\<close>

subsection \<open>Unfolding the definitions on the small machine\<close>

lemmas const_defs = PGSIZE_def UTOP_def KERNBASE_def PTE_P_def PTE_W_def PTE_U_def PTE_AVAIL_def
  PTE_SYSCALL_def E_BAD_ENV_def E_INVAL_def E_NO_MEM_def E_NO_FREE_ENV_def ENVGENSHIFT_def
  PDX_def PGNUM_def bad_perm_def

lemmas ex_defs = ex_boot_def free_env_def clear_tf_def env_upd_def

lemmas pmap_defs = page_alloc_def page_free_def page_decref_def pgdir_walk_def page_lookup_def
  page_remove_def page_insert_def PADDR_def pa2page_def

lemmas env_defs = ENVX_def envid2env_def mk_envid_def env_alloc_def

lemmas sys_defs = sys_exofork_def sys_page_alloc_def sys_ipc_try_send_def sys_ipc_recv_def
  ipc_send_reset_def ipc_send_commit_def ipc_recv_set_dstva_def ipc_recv_deliver_def
  ipc_recv_take_def ipc_parked_for_def

lemmas all_defs = const_defs ex_defs env_defs pmap_defs sys_defs Let_def

subsection \<open>What the stores and the page operations leave alone\<close>

lemma env_upd_at: "envs (env_upd e f s) j = (if j = e then f (envs s e) else envs s j)"
  by (simp add: env_upd_def)

lemma env_upd_frame:
  "curenv (env_upd e f s) = curenv s" "NENV (env_upd e f s) = NENV s"
  "env_free_list (env_upd e f s) = env_free_list s" "npages (env_upd e f s) = npages s"
  "page_free_list (env_upd e f s) = page_free_list s" "pp_ref (env_upd e f s) = pp_ref s"
  "pgtab (env_upd e f s) = pgtab s" "ptes (env_upd e f s) = ptes s"
  by (simp_all add: env_upd_def)

lemma page_lookup_env_upd: "page_lookup (env_upd e f s) d va = page_lookup s d va"
  by (simp add: page_lookup_def env_upd_frame split: option.splits)

lemma curenv_switch:
  "envs (s\<lparr>curenv := c\<rparr>) = envs s" "curenv (s\<lparr>curenv := c\<rparr>) = c"
  "page_lookup (s\<lparr>curenv := c\<rparr>) d va = page_lookup s d va"
  by (simp_all add: page_lookup_def split: option.splits)

lemma page_free_frame: "envs (page_free s p) = envs s" "curenv (page_free s p) = curenv s"
  "NENV (page_free s p) = NENV s"
  by (simp_all add: page_free_def)

lemma page_decref_frame: "envs (page_decref s p) = envs s" "curenv (page_decref s p) = curenv s"
  "NENV (page_decref s p) = NENV s"
  by (simp_all add: page_decref_def Let_def page_free_frame)

lemma page_decref_tables: "pgtab (page_decref s p) = pgtab s" "ptes (page_decref s p) = ptes s"
  by (simp_all add: page_decref_def Let_def page_free_def)

lemma page_remove_frame: "envs (page_remove s d va) = envs s" "curenv (page_remove s d va) = curenv s"
  "NENV (page_remove s d va) = NENV s"
  by (simp_all add: page_remove_def Let_def page_decref_frame split: option.splits prod.splits)

lemma page_alloc_frame:
  assumes "page_alloc s = Some (p, s1)"
  shows "envs s1 = envs s" "curenv s1 = curenv s" "NENV s1 = NENV s"
    "page_free_list s = p # page_free_list s1" "s1 = s\<lparr>page_free_list := page_free_list s1\<rparr>"
  using assms by (auto simp: page_alloc_def split: list.splits)

lemma page_alloc_free: "page_alloc s = Some (p, s1) \<Longrightarrow> page_free s1 p = s"
  by (auto simp: page_alloc_def page_free_def split: list.splits)

lemma pgdir_walk_frame:
  assumes "pgdir_walk s d va c = (b, s1)"
  shows "envs s1 = envs s" "curenv s1 = curenv s" "NENV s1 = NENV s"
  using assms by (auto simp: pgdir_walk_def page_alloc_def split: option.splits if_splits list.splits)

lemma page_insert_frame:
  assumes "page_insert s d p va perm = (r, s1)"
  shows "envs s1 = envs s" "curenv s1 = curenv s" "NENV s1 = NENV s"
  using assms
  by (auto simp: page_insert_def Let_def page_remove_frame dest: pgdir_walk_frame
      split: prod.splits bool.splits if_splits)

lemma page_insert_result:
  assumes "page_insert s d p va perm = (r, s1)"
  shows "r = 0 \<or> (r = - E_NO_MEM \<and> s1 = s)"
  using assms by (auto simp: page_insert_def Let_def split: prod.splits bool.splits)

lemma page_insert_fails:
  "page_insert s d p va perm = (r, s1) \<Longrightarrow> r < 0 \<Longrightarrow> s1 = s"
  using page_insert_result by fastforce

lemma page_insert_lookup:
  assumes "page_insert s d pp va perm = (r, s')" and "\<not> r < 0"
  shows "page_lookup s' d va = Some (pp, perm OR PTE_P)"
proof -
  obtain b s1 where walk: "pgdir_walk s d va True = (b, s1)"
    by (cases "pgdir_walk s d va True")
  have neg: "- E_NO_MEM < 0" by (simp add: E_NO_MEM_def)
  from assms walk neg have b: "b" by (cases b) (auto simp: page_insert_def)
  from walk b have tab: "pgtab s1 d (PDX va) \<noteq> None"
    by (auto simp: pgdir_walk_def page_alloc_def split: option.splits if_splits list.splits)
  define s2 where "s2 = s1\<lparr>pp_ref := (pp_ref s1)(pp := pp_ref s1 pp + 1)\<rparr>"
  define s3 where "s3 = (if page_lookup s2 d va \<noteq> None then page_remove s2 d va else s2)"
  have "pgtab s3 = pgtab s1"
    by (auto simp: s3_def s2_def page_remove_def Let_def page_decref_tables split: option.splits)
  with tab have tab3: "pgtab s3 d (PDX va) \<noteq> None" by simp
  from assms(1) walk b
  have "s' = s3\<lparr>ptes := (ptes s3)(d := (ptes s3 d)(PGNUM va \<mapsto> (pp, perm OR PTE_P)))\<rparr>"
    by (auto simp: page_insert_def Let_def s3_def s2_def split: if_splits)
  with tab3 show ?thesis by (auto simp: page_lookup_def split: option.splits)
qed

lemma envid2env_error: "envid2env s envid c = Inl r \<Longrightarrow> r = - E_BAD_ENV"
  by (auto simp: envid2env_def Let_def split: if_splits)

lemma env_alloc_error: "env_alloc s p = Inl r \<Longrightarrow> r < 0"
  by (auto simp: env_alloc_def Let_def E_NO_FREE_ENV_def E_NO_MEM_def split: list.splits option.splits)

lemma env_alloc_child:
  assumes "env_alloc s p = Inr (c, s1)"
  shows "c \<in> set (env_free_list s)" "curenv s1 = curenv s"
    "env_parent_id (envs s1 c) = p" "\<And>j. j \<noteq> c \<Longrightarrow> envs s1 j = envs s j"
  using assms
  by (auto simp: env_alloc_def Let_def env_upd_def page_alloc_def split: list.splits option.splits)

subsection \<open>The paths through the two IPC handlers\<close>

text \<open>Every call of \<^verbatim>\<open>sys_ipc_try_send\<close> takes one of five paths: the target does not
  resolve; an argument check or the page insertion fails after the reset of lines
  439-442; or the handler reaches lines 468-479 without a page, with the page inserted at
  the receiver, or with the page parked at the sender.\<close>

lemma ipc_send_reset_frame:
  "curenv (ipc_send_reset s e) = curenv s" "NENV (ipc_send_reset s e) = NENV s"
  "page_lookup (ipc_send_reset s e) d va = page_lookup s d va"
  "env_ipc_recving (envs (ipc_send_reset s e) j) = env_ipc_recving (envs s j)"
  "env_ipc_dstva (envs (ipc_send_reset s e) j) = env_ipc_dstva (envs s j)"
  "env_status (envs (ipc_send_reset s e) j) = env_status (envs s j)"
  "env_pgdir (envs (ipc_send_reset s e) j) = env_pgdir (envs s j)"
  "env_id (envs (ipc_send_reset s e) j) = env_id (envs s j)"
  "env_tf (envs (ipc_send_reset s e) j) = env_tf (envs s j)"
  "env_ipc_pending_envid (envs (ipc_send_reset s e) j) = env_ipc_pending_envid (envs s j)"
  by (simp_all add: ipc_send_reset_def env_upd_at env_upd_frame page_lookup_env_upd)

lemma ipc_send_commit_eq:
  "ipc_send_commit t e envid val =
     (if env_ipc_recving (envs t e)
      then (Ret 0, env_upd e (\<lambda>x. x\<lparr>env_ipc_recving := False,
                                       env_ipc_from := env_id (envs t (curenv t)),
                                       env_ipc_value := val,
                                       env_status := ENV_RUNNABLE,
                                       env_tf := (env_tf x)\<lparr>tf_regs := (tf_regs (env_tf x))\<lparr>reg_eax := 0\<rparr>\<rparr>\<rparr>) t)
      else (Yields, env_upd (curenv t) (\<lambda>x. x\<lparr>env_ipc_pending_envid := envid,
                                                env_ipc_pending_value := val,
                                                env_status := ENV_NOT_RUNNABLE\<rparr>) t))"
  by (simp add: ipc_send_commit_def Let_def env_upd_def fun_eq_iff)

lemma sys_ipc_try_send_cases:
  assumes "sys_ipc_try_send s envid val srcva perm = (out, s')"
  obtains
    (bad_env) r where "envid2env s envid False = Inl r" "out = Ret r" "s' = s"
  | (rejected) e r where "envid2env s envid False = Inr e" "out = Ret r" "r < 0"
      "s' = ipc_send_reset s e"
  | (no_page) e where "envid2env s envid False = Inr e"
      "\<not> (srcva < UTOP \<and> (env_ipc_dstva (envs s e) < UTOP \<or> \<not> env_ipc_recving (envs s e)))"
      "ipc_send_commit (ipc_send_reset s e) e envid val = (out, s')"
  | (deliver_page) e page srcpte r s1 where "envid2env s envid False = Inr e"
      "srcva < UTOP" "env_ipc_dstva (envs s e) < UTOP" "env_ipc_recving (envs s e)"
      "srcva mod PGSIZE = 0" "\<not> bad_perm perm"
      "page_lookup s (env_pgdir (envs s (curenv s))) srcva = Some (page, srcpte)"
      "\<not> (perm AND PTE_W \<noteq> 0 \<and> srcpte AND PTE_W = 0)"
      "page_insert (ipc_send_reset s e) (env_pgdir (envs s e)) page (env_ipc_dstva (envs s e)) perm
         = (r, s1)" "\<not> r < 0"
      "ipc_send_commit (env_upd e (\<lambda>x. x\<lparr>env_ipc_perm := perm\<rparr>) s1) e envid val = (out, s')"
  | (park_page) e page srcpte where "envid2env s envid False = Inr e"
      "srcva < UTOP" "\<not> env_ipc_recving (envs s e)"
      "srcva mod PGSIZE = 0" "\<not> bad_perm perm"
      "page_lookup s (env_pgdir (envs s (curenv s))) srcva = Some (page, srcpte)"
      "\<not> (perm AND PTE_W \<noteq> 0 \<and> srcpte AND PTE_W = 0)"
      "ipc_send_commit
         (env_upd (curenv s) (\<lambda>x. x\<lparr>env_ipc_pending_perm := perm\<rparr>)
            (env_upd (curenv s) (\<lambda>x. x\<lparr>env_ipc_pending_page := Some page\<rparr>)
               (ipc_send_reset s e))) e envid val = (out, s')"
proof (cases "envid2env s envid False")
  case (Inl r)
  with assms have "out = Ret r" "s' = s" by (simp_all add: sys_ipc_try_send_def)
  with Inl show ?thesis by (rule bad_env)
next
  case (Inr e)
  define t where "t = ipc_send_reset s e"
  have fr: "curenv t = curenv s" "\<And>d va. page_lookup t d va = page_lookup s d va"
    "\<And>j. env_ipc_recving (envs t j) = env_ipc_recving (envs s j)"
    "\<And>j. env_ipc_dstva (envs t j) = env_ipc_dstva (envs s j)"
    "\<And>j. env_pgdir (envs t j) = env_pgdir (envs s j)"
    by (simp_all add: t_def ipc_send_reset_frame)
  have inval: "- E_INVAL < 0" by (simp add: E_INVAL_def)
  note defs = sys_ipc_try_send_def Let_def t_def[symmetric]
  show ?thesis
  proof (cases "srcva < UTOP \<and> (env_ipc_dstva (envs s e) < UTOP \<or> \<not> env_ipc_recving (envs s e))")
    case False
    with assms Inr have "ipc_send_commit t e envid val = (out, s')"
      by (simp add: defs fr)
    with Inr False show ?thesis unfolding t_def by (rule no_page)
  next
    case guard: True
    show ?thesis
    proof (cases "srcva mod PGSIZE \<noteq> 0 \<or> bad_perm perm")
      case True
      with assms Inr guard have "out = Ret (- E_INVAL)" "s' = t"
        by (auto simp: defs fr split: if_splits)
      with Inr inval show ?thesis unfolding t_def by (intro rejected[of e "- E_INVAL"])
    next
      case args: False
      show ?thesis
      proof (cases "page_lookup s (env_pgdir (envs s (curenv s))) srcva")
        case None
        with assms Inr guard args have "out = Ret (- E_INVAL)" "s' = t"
          by (auto simp: defs fr)
        with Inr inval show ?thesis unfolding t_def by (intro rejected[of e "- E_INVAL"])
      next
        case (Some a)
        obtain page srcpte where a: "a = (page, srcpte)" by (cases a)
        note look = Some[unfolded a]
        show ?thesis
        proof (cases "perm AND PTE_W \<noteq> 0 \<and> srcpte AND PTE_W = 0")
          case True
          with assms Inr guard args look have "out = Ret (- E_INVAL)" "s' = t"
            by (auto simp: defs fr)
          with Inr inval show ?thesis unfolding t_def by (intro rejected[of e "- E_INVAL"])
        next
          case wr: False
          show ?thesis
          proof (cases "env_ipc_recving (envs s e)")
            case False
            with assms Inr guard args look wr
            have "ipc_send_commit
                    (env_upd (curenv s) (\<lambda>x. x\<lparr>env_ipc_pending_perm := perm\<rparr>)
                       (env_upd (curenv s) (\<lambda>x. x\<lparr>env_ipc_pending_page := Some page\<rparr>) t))
                    e envid val = (out, s')"
              by (auto simp: defs fr env_upd_frame)
            with Inr guard False args look wr show ?thesis
              unfolding t_def by (intro park_page[of e page srcpte]) auto
          next
            case recv: True
            obtain r s1 where ins:
              "page_insert t (env_pgdir (envs s e)) page (env_ipc_dstva (envs s e)) perm = (r, s1)"
              by (cases "page_insert t (env_pgdir (envs s e)) page (env_ipc_dstva (envs s e)) perm")
            show ?thesis
            proof (cases "r < 0")
              case True
              with ins have "s1 = t" by (blast dest: page_insert_fails)
              with assms Inr guard args look wr recv ins True have "out = Ret r" "s' = t"
                by (auto simp: defs fr)
              with Inr True show ?thesis unfolding t_def by (intro rejected[of e r])
            next
              case False
              with assms Inr guard args look wr recv ins
              have "ipc_send_commit (env_upd e (\<lambda>x. x\<lparr>env_ipc_perm := perm\<rparr>) s1) e envid val
                      = (out, s')"
                by (auto simp: defs fr)
              with Inr guard recv args look wr ins False show ?thesis
                unfolding t_def by (intro deliver_page[of e page srcpte r s1]) auto
            qed
          qed
        qed
      qed
    qed
  qed
qed

text \<open>The loop of \<^verbatim>\<open>sys_ipc_recv\<close> stops at the first slot that passes its test.\<close>

lemma ipc_recv_scan_find:
  "ipc_recv_scan s dstva xs = map_option (ipc_recv_take s dstva) (find (ipc_parked_for s) xs)"
  by (induction xs) simp_all

lemma find_first_index:
  assumes "i < n" "P i" "\<forall>k<i. \<not> P k"
  shows "find P [0..<n] = Some i"
  using assms by (auto simp: find_Some_iff intro!: exI[of _ i])

lemma find_upt_Some:
  assumes "find P [0..<n] = Some i"
  shows "i < n \<and> P i \<and> (\<forall>k<i. \<not> P k)"
  using assms by (auto simp: find_Some_iff)

lemma ipc_recv_set_dstva_frame:
  "curenv (ipc_recv_set_dstva s dstva) = curenv s" "NENV (ipc_recv_set_dstva s dstva) = NENV s"
  "ipc_parked_for (ipc_recv_set_dstva s dstva) j = ipc_parked_for s j"
  "env_status (envs (ipc_recv_set_dstva s dstva) j) = env_status (envs s j)"
  "env_tf (envs (ipc_recv_set_dstva s dstva) j) = env_tf (envs s j)"
  "env_id (envs (ipc_recv_set_dstva s dstva) j) = env_id (envs s j)"
  "env_ipc_pending_envid (envs (ipc_recv_set_dstva s dstva) j) = env_ipc_pending_envid (envs s j)"
  "env_ipc_pending_value (envs (ipc_recv_set_dstva s dstva) j) = env_ipc_pending_value (envs s j)"
  "env_ipc_pending_page (envs (ipc_recv_set_dstva s dstva) j) = env_ipc_pending_page (envs s j)"
  "env_ipc_pending_perm (envs (ipc_recv_set_dstva s dstva) j) = env_ipc_pending_perm (envs s j)"
  by (simp_all add: ipc_recv_set_dstva_def ipc_parked_for_def env_upd_at env_upd_frame)

lemma ipc_recv_set_dstva_envs:
  "env_pgdir (envs (ipc_recv_set_dstva s dstva) j) = env_pgdir (envs s j)"
  "env_ipc_recving (envs (ipc_recv_set_dstva s dstva) j) = env_ipc_recving (envs s j)"
  "UTOP \<le> dstva \<Longrightarrow> ipc_recv_set_dstva s dstva = s"
  by (simp_all add: ipc_recv_set_dstva_def env_upd_at)

lemma ipc_recv_deliver_eq:
  "ipc_recv_deliver u i =
     (Ret 0,
      env_upd i (\<lambda>x. x\<lparr>env_ipc_pending_envid := 0, env_status := ENV_RUNNABLE,
                        env_tf := (env_tf x)\<lparr>tf_regs := (tf_regs (env_tf x))\<lparr>reg_eax := 0\<rparr>\<rparr>\<rparr>)
        (env_upd (curenv u) (\<lambda>x. x\<lparr>env_ipc_value := env_ipc_pending_value (envs u i),
                                    env_ipc_from := env_id (envs u i)\<rparr>) u))"
  by (simp add: ipc_recv_deliver_def Let_def env_upd_def fun_eq_iff)

lemma sys_ipc_recv_cases:
  assumes "sys_ipc_recv s dstva = (out, s')"
  obtains
    (misaligned) "dstva < UTOP" "dstva mod PGSIZE \<noteq> 0" "out = Ret (- E_INVAL)" "s' = s"
  | (block) "find (ipc_parked_for s) [0..<NENV s] = None" "out = Yields"
      "s' = env_upd (curenv s) (\<lambda>x. x\<lparr>env_status := ENV_NOT_RUNNABLE\<rparr>)
              (env_upd (curenv s) (\<lambda>x. x\<lparr>env_ipc_recving := True\<rparr>) (ipc_recv_set_dstva s dstva))"
  | (take) i where "find (ipc_parked_for s) [0..<NENV s] = Some i"
      "\<not> (dstva < UTOP \<and> dstva mod PGSIZE \<noteq> 0)"
      "ipc_recv_take (ipc_recv_set_dstva s dstva) dstva i = (out, s')"
proof (cases "dstva < UTOP \<and> dstva mod PGSIZE \<noteq> 0")
  case True
  with assms have "out = Ret (- E_INVAL)" "s' = s" by (simp_all add: sys_ipc_recv_def)
  with True show ?thesis by (intro misaligned) auto
next
  case ok: False
  have same: "find (ipc_parked_for (ipc_recv_set_dstva s dstva)) [0..<NENV s]
              = find (ipc_parked_for s) [0..<NENV s]"
    by (rule find_cong) (simp_all add: ipc_recv_set_dstva_frame)
  show ?thesis
  proof (cases "find (ipc_parked_for s) [0..<NENV s]")
    case None
    with assms ok same have "out = Yields"
      "s' = env_upd (curenv s) (\<lambda>x. x\<lparr>env_status := ENV_NOT_RUNNABLE\<rparr>)
              (env_upd (curenv s) (\<lambda>x. x\<lparr>env_ipc_recving := True\<rparr>) (ipc_recv_set_dstva s dstva))"
      by (auto simp: sys_ipc_recv_def Let_def ipc_recv_scan_find ipc_recv_set_dstva_frame env_upd_frame)
    with None show ?thesis by (rule block)
  next
    case (Some i)
    with assms ok same have "ipc_recv_take (ipc_recv_set_dstva s dstva) dstva i = (out, s')"
      by (auto simp: sys_ipc_recv_def Let_def ipc_recv_scan_find ipc_recv_set_dstva_frame)
    with Some ok show ?thesis by (rule take)
  qed
qed

lemma ipc_recv_take_cases:
  assumes "ipc_recv_take t dstva i = (out, s')"
  obtains
    (insert_failed) page r where "env_ipc_pending_page (envs t i) = Some page" "dstva < UTOP"
      "r < 0" "out = Ret r" "s' = env_upd (curenv t) (\<lambda>x. x\<lparr>env_ipc_perm := 0\<rparr>) t"
  | (delivered) u p where "ipc_recv_deliver u i = (out, s')" "curenv u = curenv t"
      "envs u = (envs t)(curenv t := (envs t (curenv t))\<lparr>env_ipc_perm := p\<rparr>)"
proof -
  define t0 where "t0 = env_upd (curenv t) (\<lambda>x. x\<lparr>env_ipc_perm := 0\<rparr>) t"
  have t0: "curenv t0 = curenv t"
    "envs t0 = (envs t)(curenv t := (envs t (curenv t))\<lparr>env_ipc_perm := 0\<rparr>)"
    "env_ipc_pending_page (envs t0 i) = env_ipc_pending_page (envs t i)"
    by (simp_all add: t0_def env_upd_def)
  note defs = ipc_recv_take_def Let_def t0_def[symmetric]
  show ?thesis
  proof (cases "\<exists>page. env_ipc_pending_page (envs t i) = Some page \<and> dstva < UTOP")
    case False
    with assms t0(3) have "ipc_recv_deliver t0 i = (out, s')"
      by (auto simp: defs split: option.splits)
    then show ?thesis using t0(1,2) by (rule delivered)
  next
    case True
    then obtain page where pg: "env_ipc_pending_page (envs t i) = Some page" and lt: "dstva < UTOP"
      by blast
    obtain r s1 where ins: "page_insert t0 (env_pgdir (envs t0 (curenv t0))) page dstva
        (env_ipc_pending_perm (envs t0 i)) = (r, s1)"
      by (cases "page_insert t0 (env_pgdir (envs t0 (curenv t0))) page dstva
        (env_ipc_pending_perm (envs t0 i))")
    show ?thesis
    proof (cases "r < 0")
      case True
      with ins have "s1 = t0" by (blast dest: page_insert_fails)
      with assms pg lt ins True t0(3) have "out = Ret r" "s' = t0"
        by (simp_all add: defs)
      with pg lt True show ?thesis unfolding t0_def by (rule insert_failed)
    next
      case False
      define u where "u = env_upd (curenv s1) (\<lambda>x. x\<lparr>env_ipc_perm := env_ipc_pending_perm (envs s1 i)\<rparr>) s1"
      from assms pg lt ins False t0(3) have "ipc_recv_deliver u i = (out, s')"
        by (simp add: defs u_def)
      moreover from page_insert_frame[OF ins] t0 have "curenv u = curenv t"
        "envs u = (envs t)(curenv t := (envs t (curenv t))\<lparr>env_ipc_perm := env_ipc_pending_perm (envs s1 i)\<rparr>)"
        by (simp_all add: u_def env_upd_def fun_eq_iff)
      ultimately show ?thesis by (rule delivered)
    qed
  qed
qed

lemma ipc_recv_take_effect:
  assumes "ipc_recv_take t dstva i = (out, s')"
  shows "(out = Ret 0 \<or> (\<exists>r<0. out = Ret r))
    \<and> (out = Ret 0 \<longrightarrow>
          env_ipc_pending_envid (envs s' i) = 0 \<and> env_status (envs s' i) = ENV_RUNNABLE
          \<and> reg_eax (tf_regs (env_tf (envs s' i))) = 0
          \<and> env_ipc_from (envs s' (curenv t)) = env_id (envs t i)
          \<and> env_ipc_value (envs s' (curenv t)) = env_ipc_pending_value (envs t i))
    \<and> (\<forall>j. j \<noteq> i \<or> out \<noteq> Ret 0 \<longrightarrow>
          env_status (envs s' j) = env_status (envs t j)
          \<and> env_tf (envs s' j) = env_tf (envs t j)
          \<and> env_ipc_pending_envid (envs s' j) = env_ipc_pending_envid (envs t j))
    \<and> (\<forall>j. env_ipc_pending_value (envs s' j) = env_ipc_pending_value (envs t j)
          \<and> env_ipc_pending_page (envs s' j) = env_ipc_pending_page (envs t j)
          \<and> env_ipc_pending_perm (envs s' j) = env_ipc_pending_perm (envs t j))"
  using assms
proof (cases rule: ipc_recv_take_cases)
  case (insert_failed page r)
  then show ?thesis by (auto simp: env_upd_at)
next
  case (delivered u p)
  then show ?thesis by (auto simp: ipc_recv_deliver_eq env_upd_at env_upd_frame)
qed


lemma sys_ipc_recv_first:
  assumes call: "sys_ipc_recv s dstva = (out, s')"
    and i: "i < NENV s" "ipc_parked_for s i" "\<forall>k<i. \<not> ipc_parked_for s k"
  shows "\<not> (dstva < UTOP \<and> dstva mod PGSIZE \<noteq> 0)
           \<and> ipc_recv_take (ipc_recv_set_dstva s dstva) dstva i = (out, s')
         \<or> dstva < UTOP \<and> dstva mod PGSIZE \<noteq> 0 \<and> out = Ret (- E_INVAL) \<and> s' = s"
  using call
proof (cases rule: sys_ipc_recv_cases)
  case misaligned
  then show ?thesis by simp
next
  case block
  with find_first_index[of i "NENV s" "ipc_parked_for s"] i show ?thesis by simp
next
  case (take i')
  with find_first_index[of i "NENV s" "ipc_parked_for s"] i show ?thesis by simp
qed








subsection \<open>Runs on the small machine\<close>

lemma ex_boot_curenv: "envid2env ex_boot 0 True = Inr 0"
  by (simp add: envid2env_def ex_boot_def)

lemma ex_low_curenv: "envid2env ex_low 0 True = Inr 0"
  by (simp add: envid2env_def ex_low_def ex_boot_def)

lemma ex_boot_no_env: "envid2env ex_boot 0x2001 True = Inl (- 2)"
  by (simp add: const_defs ex_defs env_defs)

lemma ex_low_alloc: "page_alloc ex_low = Some (5, ex_low\<lparr>page_free_list := []\<rparr>)"
  by (simp add: page_alloc_def ex_low_def)

lemma ex_low_insert:
  "page_insert (ex_low\<lparr>page_free_list := []\<rparr>) 0 5 0x800000 7 = (- 4, ex_low\<lparr>page_free_list := []\<rparr>)"
  by (simp add: const_defs pmap_defs ex_low_def ex_boot_def)

lemma ex_receiving_send:
  "sys_ipc_try_send ex_receiving 0x1001 42 UTOP 0
     = (Ret 0, snd (sys_ipc_try_send ex_receiving 0x1001 42 UTOP 0))"
  by (simp add: prod_eq_iff all_defs ex_receiving_def)

lemma ex_receiving_target:
  "envid2env ex_receiving 0x1001 False = Inr 1" "env_ipc_recving (envs ex_receiving 1)"
  "env_status (envs ex_receiving 1) = ENV_NOT_RUNNABLE"
  "reg_eax (tf_regs (env_tf (envs ex_receiving 1))) = 13"
  by (simp_all add: const_defs ex_defs env_defs ex_receiving_def)

lemma ex_receiving_misaligned:
  "sys_ipc_try_send ex_receiving 0x1001 42 0x400001 7
     = (Ret (- 3), snd (sys_ipc_try_send ex_receiving 0x1001 42 0x400001 7))"
  by (simp add: prod_eq_iff all_defs ex_receiving_def)

lemma ex_after_send_misaligned:
  "sys_ipc_try_send ex_after_send 0x1001 42 0x400001 7
     = (Ret (- 3), snd (sys_ipc_try_send ex_after_send 0x1001 42 0x400001 7))"
  by (simp add: prod_eq_iff all_defs ex_after_send_def)

lemma ex_after_send_target: "envid2env ex_after_send 0x1001 False = Inr 1"
  by (simp add: const_defs ex_defs env_defs ex_after_send_def)

lemma ex_parked_first:
  "1 < NENV ex_parked" "ipc_parked_for ex_parked 1" "\<forall>k<1. \<not> ipc_parked_for ex_parked k"
  "ipc_parked_for ex_parked 2"
  by (simp_all add: ex_parked_def ipc_parked_for_def ex_defs)

lemma ex_parked_recv: "sys_ipc_recv ex_parked UTOP = (Ret 0, snd (sys_ipc_recv ex_parked UTOP))"
  by (simp add: prod_eq_iff all_defs ex_parked_def upt_rec)






lemma ex_stale_recv:
  "sys_ipc_recv ex_stale UTOP = (Yields, snd (sys_ipc_recv ex_stale UTOP))"
  by (simp add: prod_eq_iff ex_stale_def all_defs upt_rec)

lemma ex_stale_state:
  "curenv ex_stale = 1" "env_ipc_dstva (envs ex_stale 1) = 0x800000"
  "envid2env ex_stale_blocked 0x1001 False = Inr 1"
  "env_pgdir (envs (snd (sys_ipc_recv ex_stale UTOP)) 0) = 0"
  "page_lookup (snd (sys_ipc_recv ex_stale UTOP)) 0 0x400000 = Some (3, 7)"
  by (simp_all add: ex_stale_blocked_def ex_stale_def all_defs upt_rec)

lemma ex_stale_send:
  "sys_ipc_try_send ex_stale_blocked 0x1001 42 0x400000 7
     = (Ret 0, snd (sys_ipc_try_send ex_stale_blocked 0x1001 42 0x400000 7))"
  by (simp add: prod_eq_iff ex_stale_blocked_def ex_stale_def all_defs upt_rec)







subsection \<open>sys_ipc_try_send: errors and the state\<close>

text \<open>
  Claim C1 asks that a call of \<^verbatim>\<open>sys_ipc_try_send\<close> that returns an error leaves the
  caller's and the target's environment as they were at syscall entry. The handler does
  that only when the target does not resolve. Once it has resolved, lines 439-442 store
  before any argument is checked, and every error return after them (a source address
  that is not page-aligned, a permission that is not allowed, no page at the source, write
  access asked for a read-only page, a failed insertion) leaves the entry state after
  \<open>ipc_send_reset\<close>: the \<open>env_ipc_perm\<close> of a receiving target has been set to 0, or
  else the caller's \<open>env_ipc_pending_page\<close> has been set to \<^verbatim>\<open>NULL\<close>.
\<close>

theorem ipc_try_send_error_state:
  assumes call: "sys_ipc_try_send s envid val srcva perm = (Ret r, s')" and err: "r < 0"
  shows "(case envid2env s envid False of
            Inl e \<Rightarrow> s' = s
          | Inr env \<Rightarrow> s' = ipc_send_reset s env)"
  using call
proof (cases rule: sys_ipc_try_send_cases)
  case (bad_env r')
  then show ?thesis by simp
next
  case (rejected e r')
  then show ?thesis by simp
next
  case (no_page e)
  with err show ?thesis by (auto simp: ipc_send_commit_eq split: if_splits)
next
  case (deliver_page e page srcpte r' s1)
  with err show ?thesis by (auto simp: ipc_send_commit_eq split: if_splits)
next
  case (park_page e page srcpte)
  with err show ?thesis by (auto simp: ipc_send_commit_eq split: if_splits)
qed

text \<open>On the small machine: the blocked child loses the permission 7 it held, and the
  parent loses its pending page, each through a send that failed with \<open>-3\<close> for a source
  address that is not page-aligned.\<close>

theorem ipc_try_send_error_state_witness:
  "fst (sys_ipc_try_send ex_receiving 0x1001 42 0x400001 7) = Ret (- 3)
   \<and> env_ipc_perm (envs ex_receiving 1) = 7
   \<and> env_ipc_perm (envs (snd (sys_ipc_try_send ex_receiving 0x1001 42 0x400001 7)) 1) = 0
   \<and> fst (sys_ipc_try_send ex_after_send 0x1001 42 0x400001 7) = Ret (- 3)
   \<and> env_ipc_pending_page (envs ex_after_send 0) = Some 3
   \<and> env_ipc_pending_page (envs (snd (sys_ipc_try_send ex_after_send 0x1001 42 0x400001 7)) 0)
       = None"
proof -
  from ipc_try_send_error_state[OF ex_receiving_misaligned] ex_receiving_target(1)
  have a: "snd (sys_ipc_try_send ex_receiving 0x1001 42 0x400001 7) = ipc_send_reset ex_receiving 1"
    by simp
  from ipc_try_send_error_state[OF ex_after_send_misaligned] ex_after_send_target
  have b: "snd (sys_ipc_try_send ex_after_send 0x1001 42 0x400001 7) = ipc_send_reset ex_after_send 1"
    by simp
  have c: "env_ipc_perm (envs ex_receiving 1) = 7"
    "env_ipc_perm (envs (ipc_send_reset ex_receiving 1) 1) = 0"
    "env_ipc_pending_page (envs ex_after_send 0) = Some 3"
    "env_ipc_pending_page (envs (ipc_send_reset ex_after_send 1) 0) = None"
    by (simp_all add: ex_defs ex_receiving_def ex_after_send_def ipc_send_reset_def)
  from a b c show ?thesis
    by (simp add: ex_receiving_misaligned[THEN arg_cong, of fst, simplified]
        ex_after_send_misaligned[THEN arg_cong, of fst, simplified])
qed

subsection \<open>Page transfer and the receiver's destination address\<close>

text \<open>When the sender arrives first the receiver's own argument decides: a receive with
  \<^verbatim>\<open>dstva >= UTOP\<close> that takes a parked sender maps nothing and leaves
  \<open>env_ipc_perm = 0\<close>, whatever the sender parked (lines 518-525).\<close>

lemma sys_ipc_recv_without_dstva:
  assumes call: "sys_ipc_recv s dstva = (Ret 0, s')" and no_page: "UTOP \<le> dstva"
  shows "env_ipc_perm (envs s' (curenv s)) = 0 \<and> pgtab s' = pgtab s \<and> ptes s' = ptes s"
  using call
proof (cases rule: sys_ipc_recv_cases)
  case misaligned
  with no_page show ?thesis by simp
next
  case block
  then show ?thesis by simp
next
  case (take i)
  from no_page have "\<not> dstva < UTOP" by simp
  with take(3) no_page
  have "ipc_recv_deliver (env_upd (curenv s) (\<lambda>x. x\<lparr>env_ipc_perm := 0\<rparr>) s) i = (Ret 0, s')"
    by (simp add: ipc_recv_take_def Let_def ipc_recv_set_dstva_envs split: option.splits)
  then show ?thesis
    by (auto simp: ipc_recv_deliver_eq env_upd_at env_upd_frame)
qed

text \<open>
  Claim C2 asks that a rendezvous transfers a page exactly when the sender passed
  \<^verbatim>\<open>srcva < UTOP\<close> and the receiver passed \<^verbatim>\<open>dstva < UTOP\<close> in the calls that form
  it, and that the receiver's \<open>env_ipc_perm\<close> is 0 when no page is transferred. When the
  receiver arrives first this fails: \<^verbatim>\<open>sys_ipc_recv\<close> stores \<open>env_ipc_dstva\<close> only
  under \<^verbatim>\<open>dstva < UTOP\<close> (line 512), and the sender tests the stored field (line 444).
  A receiver that passes \<^verbatim>\<open>dstva >= UTOP\<close> and blocks, while its \<open>env_ipc_dstva\<close> is
  still below \<^verbatim>\<open>UTOP\<close>, is sent the page all the same: after a successful send with
  \<^verbatim>\<open>srcva < UTOP\<close> the sender's page is mapped at the old address in the receiver's
  address space and the receiver's \<open>env_ipc_perm\<close> is the sender's \<open>perm\<close>.
\<close>

theorem ipc_send_uses_stale_dstva:
  assumes no_page: "UTOP \<le> dstva"
    and recv: "sys_ipc_recv s dstva = (Yields, s1)"
    and stale: "env_ipc_dstva (envs s (curenv s)) < UTOP"
    and tgt: "envid2env (s1\<lparr>curenv := sender\<rparr>) envid False = Inr (curenv s)"
    and src: "srcva < UTOP"
    and send: "sys_ipc_try_send (s1\<lparr>curenv := sender\<rparr>) envid val srcva perm = (Ret 0, s2)"
  shows "env_ipc_perm (envs s2 (curenv s)) = perm
    \<and> (\<exists>page srcpte.
          page_lookup s1 (env_pgdir (envs s1 sender)) srcva = Some (page, srcpte)
          \<and> page_lookup s2 (env_pgdir (envs s2 (curenv s))) (env_ipc_dstva (envs s (curenv s)))
              = Some (page, perm OR PTE_P))"
proof -
  define rcv where "rcv = curenv s"
  from recv have s1_eq:
    "s1 = env_upd rcv (\<lambda>x. x\<lparr>env_status := ENV_NOT_RUNNABLE\<rparr>)
            (env_upd rcv (\<lambda>x. x\<lparr>env_ipc_recving := True\<rparr>) s)"
  proof (cases rule: sys_ipc_recv_cases)
    case misaligned
    then show ?thesis by simp
  next
    case block
    with no_page show ?thesis by (simp add: rcv_def ipc_recv_set_dstva_envs)
  next
    case (take i)
    from ipc_recv_take_effect[OF take(3)] show ?thesis by auto
  qed
  have s1: "env_ipc_recving (envs s1 rcv)"
    "env_ipc_dstva (envs s1 rcv) = env_ipc_dstva (envs s rcv)"
    "env_pgdir (envs s1 rcv) = env_pgdir (envs s rcv)"
    by (simp_all add: s1_eq env_upd_at)
  define u where "u = s1\<lparr>curenv := sender\<rparr>"
  have u: "envs u = envs s1" "curenv u = sender" "\<And>d va. page_lookup u d va = page_lookup s1 d va"
    by (simp_all add: u_def curenv_switch)
  from send[folded u_def] show ?thesis
  proof (cases rule: sys_ipc_try_send_cases)
    case (bad_env r)
    with tgt show ?thesis by (simp add: u_def)
  next
    case (rejected e r)
    then show ?thesis by simp
  next
    case (no_page e)
    from no_page(1) tgt have e: "e = rcv" by (simp add: u_def rcv_def)
    from no_page(2) s1 stale src show ?thesis by (simp add: e u rcv_def)
  next
    case (park_page e page srcpte)
    from park_page(1) tgt have e: "e = rcv" by (simp add: u_def rcv_def)
    from park_page(3) s1 show ?thesis by (simp add: e u)
  next
    case (deliver_page e page srcpte r t)
    from deliver_page(1) tgt have e: "e = rcv" by (simp add: u_def rcv_def)
    note ins = deliver_page(9)[unfolded e u]
    note fr = page_insert_frame[OF ins]
    define t1 where "t1 = env_upd rcv (\<lambda>x. x\<lparr>env_ipc_perm := perm\<rparr>) t"
    have t1: "env_ipc_perm (envs t1 rcv) = perm" "env_ipc_recving (envs t1 rcv)"
      "env_pgdir (envs t1 rcv) = env_pgdir (envs s rcv)"
      "\<And>d va. page_lookup t1 d va = page_lookup t d va"
      using fr(1) s1 by (simp_all add: t1_def env_upd_at page_lookup_env_upd ipc_send_reset_frame u)
    from deliver_page(11)[unfolded e, folded t1_def] t1(2)
    have s2: "s2 = env_upd rcv (\<lambda>x. x\<lparr>env_ipc_recving := False,
                                       env_ipc_from := env_id (envs t1 (curenv t1)),
                                       env_ipc_value := val,
                                       env_status := ENV_RUNNABLE,
                                       env_tf := (env_tf x)\<lparr>tf_regs := (tf_regs (env_tf x))\<lparr>reg_eax := 0\<rparr>\<rparr>\<rparr>) t1"
      by (simp add: ipc_send_commit_eq)
    have perm: "env_ipc_perm (envs s2 rcv) = perm" and dir: "env_pgdir (envs s2 rcv) = env_pgdir (envs s rcv)"
      and look: "\<And>d va. page_lookup s2 d va = page_lookup t d va"
      using t1 by (simp_all add: s2 env_upd_at page_lookup_env_upd)
    from page_insert_lookup[OF ins deliver_page(10)] s1(2,3)
    have "page_lookup t (env_pgdir (envs s rcv)) (env_ipc_dstva (envs s rcv)) = Some (page, perm OR PTE_P)"
      by simp
    with perm dir look deliver_page(7) show ?thesis
      by (auto simp: rcv_def[symmetric] u)
  qed
qed

text \<open>On the small machine: the child asks for no page (\<^verbatim>\<open>dstva = UTOP\<close>) and ends up
  with page 3 mapped at \<open>0x800000\<close> and \<open>env_ipc_perm = 7\<close>.\<close>

theorem ipc_send_uses_stale_dstva_witness: "env_ipc_dstva (envs ex_stale (curenv ex_stale)) = 0x800000
  \<and> fst (sys_ipc_recv ex_stale UTOP) = Yields
  \<and> ex_stale_blocked = (snd (sys_ipc_recv ex_stale UTOP))\<lparr>curenv := 0\<rparr>
  \<and> fst (sys_ipc_try_send ex_stale_blocked 0x1001 42 0x400000 7) = Ret 0
  \<and> env_ipc_perm (envs (snd (sys_ipc_try_send ex_stale_blocked 0x1001 42 0x400000 7)) 1) = 7
  \<and> page_lookup (snd (sys_ipc_try_send ex_stale_blocked 0x1001 42 0x400000 7))
        (env_pgdir (envs (snd (sys_ipc_try_send ex_stale_blocked 0x1001 42 0x400000 7)) 1)) 0x800000
      = Some (3, 7)"
proof -
  have utop: "(0x400000 :: u32) < UTOP" "(0x800000 :: u32) < UTOP" "(7 :: u32) OR PTE_P = 7"
    by (simp_all add: const_defs)
  from ipc_send_uses_stale_dstva[where dstva = UTOP and s = ex_stale
      and ?s1.0 = "snd (sys_ipc_recv ex_stale UTOP)" and sender = 0 and envid = "0x1001"
      and srcva = "0x400000" and val = 42 and perm = 7
      and ?s2.0 = "snd (sys_ipc_try_send ex_stale_blocked 0x1001 42 0x400000 7)"]
    ex_stale_recv ex_stale_state ex_stale_send utop
  have "env_ipc_perm (envs (snd (sys_ipc_try_send ex_stale_blocked 0x1001 42 0x400000 7)) 1) = 7
    \<and> page_lookup (snd (sys_ipc_try_send ex_stale_blocked 0x1001 42 0x400000 7))
        (env_pgdir (envs (snd (sys_ipc_try_send ex_stale_blocked 0x1001 42 0x400000 7)) 1)) 0x800000
      = Some (3, 7)"
    by (auto simp: ex_stale_blocked_def)
  with ex_stale_state show ?thesis
    by (simp add: ex_stale_blocked_def ex_stale_recv[THEN arg_cong, of fst, simplified]
        ex_stale_send[unfolded ex_stale_blocked_def, THEN arg_cong, of fst, simplified])
qed

subsection \<open>sys_exofork\<close>

text \<open>
  Claim C3: after a successful \<^verbatim>\<open>sys_exofork\<close> (the value returned is not negative)
  the new environment, the one \<^verbatim>\<open>env_alloc\<close> handed out, has status
  \<^verbatim>\<open>ENV_NOT_RUNNABLE\<close>, its register frame is the caller's frame at syscall entry with
  \<open>eax\<close> set to 0, its \<open>env_break\<close> and its parent id are the caller's \<open>env_break\<close>
  and \<open>env_id\<close>, and the value returned to the caller is the child's \<open>env_id\<close>. The
  running environment is allocated, so it is not on the list of free slots.
\<close>

theorem exofork_child:
  assumes wf: "curenv s \<notin> set (env_free_list s)"
    and call: "sys_exofork s = (Ret r, s')" and ok: "0 \<le> r"
  shows "\<exists>child s1. env_alloc s (env_id (envs s (curenv s))) = Inr (child, s1)
           \<and> child \<noteq> curenv s
           \<and> env_status (envs s' child) = ENV_NOT_RUNNABLE
           \<and> env_tf (envs s' child)
               = (env_tf (envs s (curenv s)))
                   \<lparr>tf_regs := (tf_regs (env_tf (envs s (curenv s))))\<lparr>reg_eax := 0\<rparr>\<rparr>
           \<and> env_break (envs s' child) = env_break (envs s (curenv s))
           \<and> env_parent_id (envs s' child) = env_id (envs s (curenv s))
           \<and> r = sint (env_id (envs s' child))"
proof (cases "env_alloc s (env_id (envs s (curenv s)))")
  case (Inl e)
  with call have "r = e" by (simp add: sys_exofork_def)
  with Inl ok show ?thesis by (auto dest: env_alloc_error)
next
  case (Inr a)
  obtain child s1 where a: "a = (child, s1)" by (cases a)
  note al = Inr[unfolded a]
  from env_alloc_child(1)[OF al] wf have ne: "child \<noteq> curenv s" by auto
  from env_alloc_child(2,3)[OF al] have cur: "curenv s1 = curenv s"
    and par: "env_parent_id (envs s1 child) = env_id (envs s (curenv s))"
    by auto
  from env_alloc_child(4)[OF al] ne have same: "envs s1 (curenv s) = envs s (curenv s)"
    by auto
  from call al ne cur par same show ?thesis
    by (auto simp: sys_exofork_def Let_def env_upd_at env_upd_frame)
qed

text \<open>On the small machine the child is slot 2 with the identifier \<open>0x1002\<close>.\<close>

theorem exofork_child_witness: "curenv ex_boot \<notin> set (env_free_list ex_boot)
  \<and> sys_exofork ex_boot = (Ret 0x1002, snd (sys_exofork ex_boot))
  \<and> env_alloc ex_boot 0x1000 = Inr (2, snd (projr (env_alloc ex_boot 0x1000)))
  \<and> env_id (envs (snd (sys_exofork ex_boot)) 2) = 0x1002
  \<and> env_parent_id (envs (snd (sys_exofork ex_boot)) 2) = 0x1000
  \<and> env_status (envs (snd (sys_exofork ex_boot)) 2) = ENV_NOT_RUNNABLE
  \<and> reg_eax (tf_regs (env_tf (envs ex_boot 0))) = 6
  \<and> reg_eax (tf_regs (env_tf (envs (snd (sys_exofork ex_boot)) 2))) = 0
  \<and> tf_eip (env_tf (envs (snd (sys_exofork ex_boot)) 2)) = 0x800020
  \<and> env_break (envs (snd (sys_exofork ex_boot)) 2) = 0x10000000"
proof -
  have wf: "curenv ex_boot \<notin> set (env_free_list ex_boot)" by (simp add: ex_boot_def)
  have call: "sys_exofork ex_boot = (Ret 0x1002, snd (sys_exofork ex_boot))"
    by (simp add: prod_eq_iff all_defs)
  have parent: "env_id (envs ex_boot (curenv ex_boot)) = 0x1000"
    and frame: "reg_eax (tf_regs (env_tf (envs ex_boot (curenv ex_boot)))) = 6"
      "tf_eip (env_tf (envs ex_boot (curenv ex_boot))) = 0x800020"
      "env_break (envs ex_boot (curenv ex_boot)) = 0x10000000" "curenv ex_boot = 0"
    by (simp_all add: ex_defs)
  have al: "env_alloc ex_boot 0x1000 = Inr (2, snd (projr (env_alloc ex_boot 0x1000)))"
    by (simp add: env_alloc_def page_alloc_def ex_boot_def Let_def)
  from exofork_child[OF wf call] parent al
  have "env_status (envs (snd (sys_exofork ex_boot)) 2) = ENV_NOT_RUNNABLE
    \<and> env_tf (envs (snd (sys_exofork ex_boot)) 2)
        = (env_tf (envs ex_boot (curenv ex_boot)))
            \<lparr>tf_regs := (tf_regs (env_tf (envs ex_boot (curenv ex_boot))))\<lparr>reg_eax := 0\<rparr>\<rparr>
    \<and> env_break (envs (snd (sys_exofork ex_boot)) 2) = env_break (envs ex_boot (curenv ex_boot))
    \<and> env_parent_id (envs (snd (sys_exofork ex_boot)) 2) = 0x1000
    \<and> 0x1002 = sint (env_id (envs (snd (sys_exofork ex_boot)) 2))"
    by auto
  moreover have "env_id (envs (snd (sys_exofork ex_boot)) 2) = 0x1002"
    by (simp add: all_defs)
  ultimately show ?thesis using wf call al frame by simp
qed

subsection \<open>sys_page_map: no write access to a read-only page\<close>

text \<open>
  Claim C4: when \<open>perm\<close> has the WRITE bit and the mapping of \<open>srcva\<close> in the source
  environment is not writable, \<^verbatim>\<open>sys_page_map\<close> returns \<^verbatim>\<open>-E_INVAL\<close> and creates no
  mapping: the state is the entry state. That is the result whenever the destination
  resolves; for every destination identifier the call ends in an error with the state
  unchanged (a destination that does not resolve is reported first, as
  \<^verbatim>\<open>-E_BAD_ENV\<close>). Read the other way: a call that succeeds with the WRITE bit in
  \<open>perm\<close> had a writable source mapping.
\<close>

theorem page_map_no_write_escalation:
  "(envid2env s srcenvid True = Inr srcenv \<and> perm AND PTE_W \<noteq> 0 \<and> \<not> src_writable s srcenv srcva
    \<longrightarrow> (\<forall>dstenv. envid2env s dstenvid True = Inr dstenv
            \<longrightarrow> sys_page_map s srcenvid srcva dstenvid dstva perm = (Ret (- E_INVAL), s))
        \<and> (\<exists>r<0. sys_page_map s srcenvid srcva dstenvid dstva perm = (Ret r, s)))
   \<and> (sys_page_map s srcenvid srcva dstenvid dstva perm = (Ret 0, s') \<and> perm AND PTE_W \<noteq> 0
    \<longrightarrow> (\<exists>srcenv. envid2env s srcenvid True = Inr srcenv \<and> src_writable s srcenv srcva))"
proof (intro conjI impI)
  assume h: "envid2env s srcenvid True = Inr srcenv \<and> perm AND PTE_W \<noteq> 0
    \<and> \<not> src_writable s srcenv srcva"
  show "\<forall>dstenv. envid2env s dstenvid True = Inr dstenv
            \<longrightarrow> sys_page_map s srcenvid srcva dstenvid dstva perm = (Ret (- E_INVAL), s)"
    using h by (auto simp: sys_page_map_def src_writable_def split: option.splits)
  show "\<exists>r<0. sys_page_map s srcenvid srcva dstenvid dstva perm = (Ret r, s)"
  proof (cases "envid2env s dstenvid True")
    case (Inl r)
    then have "r = - E_BAD_ENV" by (rule envid2env_error)
    with Inl h show ?thesis by (simp add: sys_page_map_def E_BAD_ENV_def)
  next
    case (Inr dstenv)
    with h have "sys_page_map s srcenvid srcva dstenvid dstva perm = (Ret (- E_INVAL), s)"
      by (auto simp: sys_page_map_def src_writable_def split: option.splits)
    then show ?thesis by (simp add: E_INVAL_def)
  qed
next
  assume h: "sys_page_map s srcenvid srcva dstenvid dstva perm = (Ret 0, s') \<and> perm AND PTE_W \<noteq> 0"
  have nz: "- E_INVAL \<noteq> 0" "- E_BAD_ENV \<noteq> 0" by (simp_all add: E_INVAL_def E_BAD_ENV_def)
  show "\<exists>srcenv. envid2env s srcenvid True = Inr srcenv \<and> src_writable s srcenv srcva"
  proof (cases "envid2env s srcenvid True")
    case (Inl r)
    then have "r = - E_BAD_ENV" by (rule envid2env_error)
    with Inl h nz show ?thesis by (simp add: sys_page_map_def)
  next
    case (Inr srcenv)
    show ?thesis
    proof (cases "envid2env s dstenvid True")
      case (Inl r)
      then have "r = - E_BAD_ENV" by (rule envid2env_error)
      with Inl Inr h nz show ?thesis by (simp add: sys_page_map_def)
    next
      case dst: (Inr dstenv)
      from h Inr dst nz have "src_writable s srcenv srcva"
        by (auto simp: sys_page_map_def src_writable_def split: if_splits option.splits prod.splits)
      with Inr show ?thesis by simp
    qed
  qed
qed

text \<open>On the small machine: the parent's page at \<open>0x401000\<close> is read-only, and mapping
  it into the child with permission 7 is refused.\<close>

theorem page_map_no_write_escalation_witness: "envid2env ex_boot 0 True = Inr 0 \<and> envid2env ex_boot 0x1001 True = Inr 1
  \<and> page_lookup ex_boot (env_pgdir (envs ex_boot 0)) 0x401000 = Some (4, 5)
  \<and> \<not> src_writable ex_boot 0 0x401000
  \<and> sys_page_map ex_boot 0 0x401000 0x1001 0x800000 7 = (Ret (- 3), ex_boot)"
proof -
  have src: "envid2env ex_boot 0 True = Inr 0" and dst: "envid2env ex_boot 0x1001 True = Inr 1"
    by (simp_all add: const_defs ex_defs env_defs)
  have look: "page_lookup ex_boot (env_pgdir (envs ex_boot 0)) 0x401000 = Some (4, 5)"
    by (simp add: const_defs ex_defs pmap_defs)
  then have ro: "\<not> src_writable ex_boot 0 0x401000"
    by (simp add: src_writable_def PTE_W_def)
  have wr: "(7 :: u32) AND PTE_W \<noteq> 0" by (simp add: PTE_W_def)
  from page_map_no_write_escalation[where s = ex_boot and srcenvid = 0 and srcenv = 0
      and perm = 7 and srcva = "0x401000" and dstenvid = "0x1001" and dstva = "0x800000"]
    src dst wr ro
  have "sys_page_map ex_boot 0 0x401000 0x1001 0x800000 7 = (Ret (- 3), ex_boot)"
    by (simp add: E_INVAL_def)
  with src dst look ro show ?thesis by simp
qed

subsection \<open>Waking the IPC partner\<close>

lemma sys_ipc_try_send_wakes:
  assumes call: "sys_ipc_try_send s envid val srcva perm = (out, s')"
    and blocked: "env_status (envs s j) = ENV_NOT_RUNNABLE"
    and woken: "env_status (envs s' j) = ENV_RUNNABLE"
  shows "envid2env s envid False = Inr j \<and> env_ipc_recving (envs s j) \<and> out = Ret 0
         \<and> reg_eax (tf_regs (env_tf (envs s' j))) = 0"
  using call
proof (cases rule: sys_ipc_try_send_cases)
  case (bad_env r)
  with blocked woken show ?thesis by simp
next
  case (rejected e r)
  with blocked woken show ?thesis by (simp add: ipc_send_reset_frame)
next
  case (no_page e)
  with blocked woken show ?thesis
    by (auto simp: ipc_send_commit_eq ipc_send_reset_frame env_upd_at split: if_splits)
next
  case (deliver_page e page srcpte r s1)
  from page_insert_frame(1)[OF deliver_page(9)] deliver_page(1,4,11) blocked woken
  show ?thesis
    by (auto simp: ipc_send_commit_eq ipc_send_reset_frame env_upd_at split: if_splits)
next
  case (park_page e page srcpte)
  with blocked woken show ?thesis
    by (auto simp: ipc_send_commit_eq ipc_send_reset_frame env_upd_at env_upd_frame split: if_splits)
qed

lemma sys_ipc_recv_wakes:
  assumes call: "sys_ipc_recv s dstva = (out, s')"
    and blocked: "env_status (envs s j) = ENV_NOT_RUNNABLE"
    and woken: "env_status (envs s' j) = ENV_RUNNABLE"
  shows "j < NENV s \<and> ipc_parked_for s j \<and> (\<forall>k<j. \<not> ipc_parked_for s k) \<and> out = Ret 0
         \<and> reg_eax (tf_regs (env_tf (envs s' j))) = 0"
  using call
proof (cases rule: sys_ipc_recv_cases)
  case misaligned
  with blocked woken show ?thesis by simp
next
  case block
  with blocked woken show ?thesis
    by (auto simp: env_upd_at env_upd_frame ipc_recv_set_dstva_frame split: if_splits)
next
  case (take i)
  note first = find_upt_Some[OF take(1)]
  from take(3) show ?thesis
  proof (cases rule: ipc_recv_take_cases)
    case (insert_failed page r)
    with blocked woken show ?thesis
      by (auto simp: env_upd_at ipc_recv_set_dstva_frame split: if_splits)
  next
    case (delivered u p)
    with blocked woken first show ?thesis
      by (auto simp: ipc_recv_deliver_eq env_upd_at env_upd_frame ipc_recv_set_dstva_frame
          split: if_splits)
  qed
qed

lemma sys_ipc_try_send_delivers:
  assumes call: "sys_ipc_try_send s envid val srcva perm = (Ret 0, s')"
    and tgt: "envid2env s envid False = Inr e" and recv: "env_ipc_recving (envs s e)"
  shows "env_status (envs s' e) = ENV_RUNNABLE \<and> reg_eax (tf_regs (env_tf (envs s' e))) = 0
         \<and> \<not> env_ipc_recving (envs s' e)"
  using call
proof (cases rule: sys_ipc_try_send_cases)
  case (bad_env r)
  with tgt show ?thesis by simp
next
  case (rejected e r)
  then show ?thesis by simp
next
  case (no_page e')
  with tgt recv show ?thesis
    by (auto simp: ipc_send_commit_eq ipc_send_reset_frame env_upd_at split: if_splits)
next
  case (deliver_page e' page srcpte r s1)
  from page_insert_frame(1)[OF deliver_page(9)] deliver_page(1,4,11) tgt recv
  show ?thesis
    by (auto simp: ipc_send_commit_eq ipc_send_reset_frame env_upd_at split: if_splits)
next
  case (park_page e' page srcpte)
  with tgt recv show ?thesis by simp
qed

lemma sys_ipc_recv_harvest:
  assumes call: "sys_ipc_recv s dstva = (Ret 0, s')"
    and i: "i < NENV s" "ipc_parked_for s i" "\<forall>k<i. \<not> ipc_parked_for s k"
  shows "env_status (envs s' i) = ENV_RUNNABLE \<and> reg_eax (tf_regs (env_tf (envs s' i))) = 0
         \<and> env_ipc_pending_envid (envs s' i) = 0"
proof -
  have "- E_INVAL \<noteq> 0" by (simp add: E_INVAL_def)
  with sys_ipc_recv_first[OF call i]
  have "ipc_recv_take (ipc_recv_set_dstva s dstva) dstva i = (Ret 0, s')" by auto
  from ipc_recv_take_effect[OF this] show ?thesis by simp
qed

text \<open>
  Claim C5: an environment that is woken by its IPC partner finds 0 in the \<open>eax\<close> of
  its saved register frame. A send that succeeds to a receiving target leaves the target
  \<^verbatim>\<open>ENV_RUNNABLE\<close> with \<open>eax = 0\<close>, and a receive that succeeds on a parked sender
  leaves that sender \<^verbatim>\<open>ENV_RUNNABLE\<close> with \<open>eax = 0\<close>. Conversely, an environment
  whose status either handler turns from \<^verbatim>\<open>ENV_NOT_RUNNABLE\<close> to \<^verbatim>\<open>ENV_RUNNABLE\<close>
  is the partner of that call (the receiving target of the send, a sender parked for the
  receiver), the call returns 0, and the environment's saved \<open>eax\<close> is 0.
\<close>

theorem ipc_wakeup_sets_eax_zero:
  "(sys_ipc_try_send s envid val srcva perm = (Ret 0, s')
      \<and> envid2env s envid False = Inr e \<and> env_ipc_recving (envs s e)
    \<longrightarrow> env_status (envs s' e) = ENV_RUNNABLE \<and> reg_eax (tf_regs (env_tf (envs s' e))) = 0)
   \<and> (sys_ipc_recv s dstva = (Ret 0, s'')
      \<and> i < NENV s \<and> ipc_parked_for s i \<and> (\<forall>k<i. \<not> ipc_parked_for s k)
    \<longrightarrow> env_status (envs s'' i) = ENV_RUNNABLE \<and> reg_eax (tf_regs (env_tf (envs s'' i))) = 0)
   \<and> (sys_ipc_try_send s envid val srcva perm = (out, t)
      \<and> env_status (envs s j) = ENV_NOT_RUNNABLE \<and> env_status (envs t j) = ENV_RUNNABLE
    \<longrightarrow> envid2env s envid False = Inr j \<and> env_ipc_recving (envs s j) \<and> out = Ret 0
        \<and> reg_eax (tf_regs (env_tf (envs t j))) = 0)
   \<and> (sys_ipc_recv s dstva = (out, t)
      \<and> env_status (envs s j) = ENV_NOT_RUNNABLE \<and> env_status (envs t j) = ENV_RUNNABLE
    \<longrightarrow> ipc_parked_for s j \<and> out = Ret 0
        \<and> reg_eax (tf_regs (env_tf (envs t j))) = 0)"
  using sys_ipc_try_send_delivers[of s envid val srcva perm s' e]
    sys_ipc_recv_harvest[of s dstva s'' i]
    sys_ipc_try_send_wakes[of s envid val srcva perm out t j]
    sys_ipc_recv_wakes[of s dstva out t j]
  by blast

text \<open>On the small machine: the child blocked in receive had \<open>eax = 13\<close>, the child
  parked in send had \<open>eax = 12\<close>; both are runnable with \<open>eax = 0\<close> after the parent's
  call.\<close>

theorem ipc_wakeup_sets_eax_zero_witness: "env_status (envs ex_receiving 1) = ENV_NOT_RUNNABLE
  \<and> env_ipc_recving (envs ex_receiving 1)
  \<and> reg_eax (tf_regs (env_tf (envs ex_receiving 1))) = 13
  \<and> fst (sys_ipc_try_send ex_receiving 0x1001 42 UTOP 0) = Ret 0
  \<and> env_status (envs (snd (sys_ipc_try_send ex_receiving 0x1001 42 UTOP 0)) 1) = ENV_RUNNABLE
  \<and> reg_eax (tf_regs (env_tf (envs (snd (sys_ipc_try_send ex_receiving 0x1001 42 UTOP 0)) 1))) = 0
  \<and> env_status (envs ex_parked 1) = ENV_NOT_RUNNABLE
  \<and> ipc_parked_for ex_parked 1
  \<and> reg_eax (tf_regs (env_tf (envs ex_parked 1))) = 12
  \<and> fst (sys_ipc_recv ex_parked UTOP) = Ret 0
  \<and> env_status (envs (snd (sys_ipc_recv ex_parked UTOP)) 1) = ENV_RUNNABLE
  \<and> reg_eax (tf_regs (env_tf (envs (snd (sys_ipc_recv ex_parked UTOP)) 1))) = 0"
proof -
  have parked: "env_status (envs ex_parked 1) = ENV_NOT_RUNNABLE"
    "reg_eax (tf_regs (env_tf (envs ex_parked 1))) = 12"
    by (simp_all add: ex_parked_def ex_defs)
  from ipc_wakeup_sets_eax_zero[where s = ex_receiving and envid = "0x1001" and val = 42
      and srcva = UTOP and perm = 0 and e = 1
      and s' = "snd (sys_ipc_try_send ex_receiving 0x1001 42 UTOP 0)"]
    ex_receiving_send ex_receiving_target
  have a: "env_status (envs (snd (sys_ipc_try_send ex_receiving 0x1001 42 UTOP 0)) 1) = ENV_RUNNABLE
    \<and> reg_eax (tf_regs (env_tf (envs (snd (sys_ipc_try_send ex_receiving 0x1001 42 UTOP 0)) 1))) = 0"
    by blast
  from ipc_wakeup_sets_eax_zero[where s = ex_parked and dstva = UTOP and i = 1
      and s'' = "snd (sys_ipc_recv ex_parked UTOP)"]
    ex_parked_recv ex_parked_first
  have b: "env_status (envs (snd (sys_ipc_recv ex_parked UTOP)) 1) = ENV_RUNNABLE
    \<and> reg_eax (tf_regs (env_tf (envs (snd (sys_ipc_recv ex_parked UTOP)) 1))) = 0"
    by blast
  from a b parked ex_receiving_target ex_parked_first show ?thesis
    by (simp add: ex_receiving_send[THEN arg_cong, of fst, simplified]
        ex_parked_recv[THEN arg_cong, of fst, simplified])
qed

subsection \<open>sys_page_alloc: failures leave nothing behind\<close>

lemma sys_page_alloc_error_unchanged:
  assumes "sys_page_alloc s envid va perm = (Ret r, s')" and "r < 0"
  shows "s' = s"
proof (cases "envid2env s envid True")
  case (Inl e)
  with assms show ?thesis by (simp add: sys_page_alloc_def)
next
  case (Inr env)
  show ?thesis
  proof (cases "UTOP \<le> va \<or> va mod PGSIZE \<noteq> 0 \<or> bad_perm perm")
    case True
    with Inr assms show ?thesis by (auto simp: sys_page_alloc_def split: if_splits)
  next
    case valid: False
    show ?thesis
    proof (cases "page_alloc s")
      case None
      with Inr valid assms show ?thesis by (auto simp: sys_page_alloc_def)
    next
      case (Some a)
      obtain page s1 where a: "a = (page, s1)" by (cases a)
      obtain r1 s2 where ins: "page_insert s1 (env_pgdir (envs s1 env)) page va perm = (r1, s2)"
        by (cases "page_insert s1 (env_pgdir (envs s1 env)) page va perm")
      from Inr valid Some a ins assms have neg: "r1 < 0" and s': "s' = page_free s2 page"
        by (auto simp: sys_page_alloc_def split: if_splits)
      from page_insert_fails[OF ins neg] have "s2 = s1" .
      with Some a s' show ?thesis by (simp add: page_alloc_free)
    qed
  qed
qed

text \<open>
  Claim C6: when \<^verbatim>\<open>sys_page_alloc\<close> rejects its arguments (the environment does not
  resolve, \<open>va\<close> is not below \<^verbatim>\<open>UTOP\<close> or not page-aligned, or \<open>perm\<close> is not
  allowed) it returns a negative code and the state is the entry state. When the page has
  been allocated and \<^verbatim>\<open>page_insert\<close> fails, the handler returns that error after
  \<^verbatim>\<open>page_free\<close> of the page: the page is on the free list again and the state is the
  entry state, so no page is lost and no mapping was added. Altogether, every call that
  returns a negative code leaves the state it found.
\<close>

theorem page_alloc_failure_atomic:
  "((\<exists>e. envid2env s envid True = Inl e) \<or> UTOP \<le> va \<or> va mod PGSIZE \<noteq> 0 \<or> bad_perm perm
      \<longrightarrow> (\<exists>r<0. sys_page_alloc s envid va perm = (Ret r, s)))
   \<and> (envid2env s envid True = Inr env \<and> va < UTOP \<and> va mod PGSIZE = 0 \<and> \<not> bad_perm perm
        \<and> page_alloc s = Some (page, s1)
        \<and> page_insert s1 (env_pgdir (envs s1 env)) page va perm = (r, s2) \<and> r < 0
      \<longrightarrow> sys_page_alloc s envid va perm = (Ret r, page_free s2 page)
          \<and> page \<in> set (page_free_list (page_free s2 page))
          \<and> page_free s2 page = s)
   \<and> (sys_page_alloc s envid va perm = (Ret r', s') \<and> r' < 0 \<longrightarrow> s' = s)"
proof (intro conjI impI)
  assume bad: "(\<exists>e. envid2env s envid True = Inl e) \<or> UTOP \<le> va \<or> va mod PGSIZE \<noteq> 0 \<or> bad_perm perm"
  show "\<exists>r<0. sys_page_alloc s envid va perm = (Ret r, s)"
  proof (cases "envid2env s envid True")
    case (Inl e)
    then have "e = - E_BAD_ENV" by (rule envid2env_error)
    with Inl show ?thesis by (simp add: sys_page_alloc_def E_BAD_ENV_def)
  next
    case (Inr env)
    with bad have "sys_page_alloc s envid va perm = (Ret (- E_INVAL), s)"
      by (auto simp: sys_page_alloc_def)
    then show ?thesis by (simp add: E_INVAL_def)
  qed
next
  assume h: "envid2env s envid True = Inr env \<and> va < UTOP \<and> va mod PGSIZE = 0 \<and> \<not> bad_perm perm
        \<and> page_alloc s = Some (page, s1)
        \<and> page_insert s1 (env_pgdir (envs s1 env)) page va perm = (r, s2) \<and> r < 0"
  then have "s2 = s1" by (blast dest: page_insert_fails)
  with h have restored: "page_free s2 page = s" by (simp add: page_alloc_free)
  from h show "sys_page_alloc s envid va perm = (Ret r, page_free s2 page)"
    by (simp add: sys_page_alloc_def not_le[symmetric])
  show "page \<in> set (page_free_list (page_free s2 page))" by (simp add: page_free_def)
  show "page_free s2 page = s" by (rule restored)
next
  assume "sys_page_alloc s envid va perm = (Ret r', s') \<and> r' < 0"
  then show "s' = s" by (blast dest: sys_page_alloc_error_unchanged)
qed

text \<open>On the small machine: the four rejections, and an insertion that fails because
  the only free page went to the allocation and none is left for the page table.\<close>

theorem page_alloc_failure_atomic_witness: "sys_page_alloc ex_boot 0 UTOP 7 = (Ret (- 3), ex_boot)
  \<and> sys_page_alloc ex_boot 0 0x800001 7 = (Ret (- 3), ex_boot)
  \<and> sys_page_alloc ex_boot 0 0x800000 0x107 = (Ret (- 3), ex_boot)
  \<and> sys_page_alloc ex_boot 0x2001 0x800000 7 = (Ret (- 2), ex_boot)
  \<and> page_alloc ex_low = Some (5, ex_low\<lparr>page_free_list := []\<rparr>)
  \<and> page_insert (ex_low\<lparr>page_free_list := []\<rparr>) 0 5 0x800000 7
      = (- 4, ex_low\<lparr>page_free_list := []\<rparr>)
  \<and> sys_page_alloc ex_low 0 0x800000 7 = (Ret (- 4), ex_low)
  \<and> page_free_list ex_low = [5]"
proof -
  have pg: "env_pgdir (envs (ex_low\<lparr>page_free_list := []\<rparr>) 0) = 0"
    by (simp add: ex_low_def ex_boot_def free_env_def)
  have a: "sys_page_alloc ex_boot 0 UTOP 7 = (Ret (- 3), ex_boot)"
    using page_alloc_failure_atomic[of ex_boot 0 UTOP 7] ex_boot_curenv
    by (auto simp: sys_page_alloc_def E_INVAL_def)
  have b: "sys_page_alloc ex_boot 0 0x800001 7 = (Ret (- 3), ex_boot)"
    using ex_boot_curenv by (simp add: sys_page_alloc_def const_defs)
  have c: "sys_page_alloc ex_boot 0 0x800000 0x107 = (Ret (- 3), ex_boot)"
    using ex_boot_curenv by (simp add: sys_page_alloc_def const_defs)
  have d: "sys_page_alloc ex_boot 0x2001 0x800000 7 = (Ret (- 2), ex_boot)"
    using ex_boot_no_env by (simp add: sys_page_alloc_def)
  have e: "sys_page_alloc ex_low 0 0x800000 7 = (Ret (- 4), ex_low)"
    using page_alloc_failure_atomic[of ex_low 0 "0x800000" 7 0 5 "ex_low\<lparr>page_free_list := []\<rparr>"
        "- 4" "ex_low\<lparr>page_free_list := []\<rparr>"] ex_low_curenv ex_low_alloc ex_low_insert pg
    by (simp add: const_defs)
  show ?thesis using a b c d e ex_low_alloc ex_low_insert by (simp add: ex_low_def)
qed

subsection \<open>sys_map_kernel_page: the error value\<close>

text \<open>
  Claim C7 asks that \<^verbatim>\<open>sys_map_kernel_page\<close> fails with the Invalid error, a negative
  value, when the address is not that of a managed page. The handler returns
  \<^verbatim>\<open>E_INVAL\<close> where every other handler returns \<^verbatim>\<open>-E_INVAL\<close> (line 78): the value
  is positive.
\<close>

theorem map_kernel_page_unmanaged:
  assumes "pa2page s (PADDR kpage) = None"
  shows "sys_map_kernel_page s kpage va = (Ret E_INVAL, s) \<and> 0 < E_INVAL"
  using assms by (simp add: sys_map_kernel_page_def E_INVAL_def)

text \<open>On the small machine, for the kernel address \<open>0xfffff000\<close>, the call returns
  3.\<close>

theorem map_kernel_page_unmanaged_witness: "pa2page ex_boot (PADDR 0xfffff000) = None
  \<and> sys_map_kernel_page ex_boot 0xfffff000 0x400000 = (Ret 3, ex_boot)"
  using map_kernel_page_unmanaged[of ex_boot "0xfffff000" "0x400000"]
  by (simp add: const_defs ex_defs pmap_defs)

subsection \<open>sys_env_set_pgfault_upcall: a null upcall\<close>

text \<open>
  Claim C8, as amended: a call of \<^verbatim>\<open>sys_env_set_pgfault_upcall\<close> with an identifier
  that resolves and a null \<open>func\<close> stops the kernel in \<^verbatim>\<open>panic\<close> (lines 201-202); no
  error code is returned to the caller, and the target's \<open>env_pgfault_upcall\<close>, like the
  rest of the state, is as at syscall entry.
\<close>

theorem set_pgfault_upcall_null_panics:
  assumes "envid2env s envid True = Inr e"
  shows "sys_env_set_pgfault_upcall s envid 0 = (Panic, s)"
  using assms by (simp add: sys_env_set_pgfault_upcall_def)

theorem set_pgfault_upcall_null_panics_witness: "envid2env ex_boot 0x1001 True = Inr 1
  \<and> sys_env_set_pgfault_upcall ex_boot 0x1001 0 = (Panic, ex_boot)"
  using set_pgfault_upcall_null_panics[of ex_boot "0x1001" 1]
  by (simp add: const_defs ex_defs env_defs)

text \<open>The claim as first stated, that the call is rejected with an error returned to the
  caller, fails on the small machine: the parent names its child and the outcome is not a
  return.\<close>

theorem set_pgfault_upcall_null_counterexample: "envid2env ex_boot 0x1001 True = Inr 1
  \<and> fst (sys_env_set_pgfault_upcall ex_boot 0x1001 0) = Panic"
  by (simp add: const_defs ex_defs env_defs sys_env_set_pgfault_upcall_def)

subsection \<open>sys_ipc_recv: which parked sender is taken\<close>



subsection \<open>The page of a parked send\<close>


subsubsection \<open>What a call leaves of the environment table\<close>





















subsubsection \<open>The notes along a run\<close>

















subsubsection \<open>Two runs on the small machine\<close>














subsubsection \<open>A sender destroyed while parked\<close>
















end
